theory Spec2Isabelle
  imports Complex_Main "HOL-Library.Word"
begin

section \<open>The L0 value model (l0\_types.h, l0\_types.c)\<close>

text \<open>
  The tagged union \<^verbatim>\<open>L0_Value\<close> becomes a datatype with one constructor per
  \<^verbatim>\<open>L0_ValueType\<close> tag.  A C pointer \<^verbatim>\<open>L0_Value*\<close> is a value option, with the null
  pointer as \<open>None\<close>.  The payload of an integer is a C \<^verbatim>\<open>long\<close> (64 bits, arithmetic
  wraps).  The payload of a float is a C \<^verbatim>\<open>double\<close>: its type is the parameter \<open>'d\<close> and
  the operations of C on it are the fields of \<open>double_ops\<close>.  A closure holds the
  handle of the environment it captured; a primitive holds the name of its host function.
\<close>

datatype 'd L0_Value =
    L0_NIL
  | L0_Boolean bool
  | L0_Integer "64 word"
  | L0_Symbol string
  | L0_Pair "'d L0_Value" "'d L0_Value"
  | L0_String string
  | L0_Primitive string
  | L0_Closure "'d L0_Value" "'d L0_Value" nat
  | L0_Float 'd
  | L0_Ref "'d L0_Value"

record 'd double_ops =
  d_of_long :: "64 word \<Rightarrow> 'd"
  d_to_long :: "'d \<Rightarrow> 64 word"
  d_zero :: 'd
  d_one :: 'd
  d_add :: "'d \<Rightarrow> 'd \<Rightarrow> 'd"
  d_sub :: "'d \<Rightarrow> 'd \<Rightarrow> 'd"
  d_mul :: "'d \<Rightarrow> 'd \<Rightarrow> 'd"
  d_div :: "'d \<Rightarrow> 'd \<Rightarrow> 'd"
  d_neg :: "'d \<Rightarrow> 'd"
  d_eq :: "'d \<Rightarrow> 'd \<Rightarrow> bool"
  d_lt :: "'d \<Rightarrow> 'd \<Rightarrow> bool"
  d_gt :: "'d \<Rightarrow> 'd \<Rightarrow> bool"

text \<open>The type predicates of l0\_types.c, applied to a pointer that may be null.\<close>

fun l0_is_nil :: "'d L0_Value option \<Rightarrow> bool" where
  "l0_is_nil (Some L0_NIL) = True"
| "l0_is_nil _ = False"

fun l0_is_boolean :: "'d L0_Value option \<Rightarrow> bool" where
  "l0_is_boolean (Some (L0_Boolean b)) = True"
| "l0_is_boolean _ = False"

fun l0_is_integer :: "'d L0_Value option \<Rightarrow> bool" where
  "l0_is_integer (Some (L0_Integer i)) = True"
| "l0_is_integer _ = False"

fun l0_is_symbol :: "'d L0_Value option \<Rightarrow> bool" where
  "l0_is_symbol (Some (L0_Symbol n)) = True"
| "l0_is_symbol _ = False"

fun l0_is_float :: "'d L0_Value option \<Rightarrow> bool" where
  "l0_is_float (Some (L0_Float f)) = True"
| "l0_is_float _ = False"

fun l0_is_pair :: "'d L0_Value option \<Rightarrow> bool" where
  "l0_is_pair (Some (L0_Pair a b)) = True"
| "l0_is_pair _ = False"

fun l0_is_primitive :: "'d L0_Value option \<Rightarrow> bool" where
  "l0_is_primitive (Some (L0_Primitive n)) = True"
| "l0_is_primitive _ = False"

fun l0_is_closure :: "'d L0_Value option \<Rightarrow> bool" where
  "l0_is_closure (Some (L0_Closure p b e)) = True"
| "l0_is_closure _ = False"

text \<open>
  \<^verbatim>\<open>l0_is_list\<close>: nil, or a chain of pairs that ends in nil.  The source also stops at a
  pair whose cdr is the pair itself; a value of the datatype is a finite tree, so that
  test never fires here.
\<close>

fun is_list_chain :: "'d L0_Value \<Rightarrow> bool" where
  "is_list_chain (L0_Pair a b) = is_list_chain b"
| "is_list_chain L0_NIL = True"
| "is_list_chain _ = False"

fun l0_is_list :: "'d L0_Value option \<Rightarrow> bool" where
  "l0_is_list None = False"
| "l0_is_list (Some v) = is_list_chain v"

text \<open>\<^verbatim>\<open>l0_is_truthy\<close>: only the boolean false is false.\<close>

definition l0_is_truthy :: "'d L0_Value option \<Rightarrow> bool" where
  "l0_is_truthy value =
     (if l0_is_boolean value \<and> (case value of Some (L0_Boolean b) \<Rightarrow> b = False | _ \<Rightarrow> False)
      then False else True)"

section \<open>The process-wide error slot (l0\_parser.h)\<close>

datatype L0_ParseStatus =
    L0_PARSE_OK
  | L0_PARSE_ERROR_UNEXPECTED_EOF
  | L0_PARSE_ERROR_INVALID_SYNTAX
  | L0_PARSE_ERROR_MEMORY
  | L0_PARSE_ERROR_RUNTIME

text \<open>
  The four globals of l0\_parser.c.  The message is a C string pointer: \<open>None\<close> is the
  null pointer.  Every function that can fail takes the slot and returns it updated.
\<close>

record L0_ErrorSlot =
  l0_parser_error_status :: L0_ParseStatus
  l0_parser_error_message :: "string option"
  l0_parser_error_line :: nat
  l0_parser_error_col :: nat

text \<open>
  The two assignments every runtime failure makes.  Arena allocation is taken to succeed
  throughout, so \<^verbatim>\<open>l0_arena_strdup\<close> returns a copy of its argument.
\<close>

definition runtime_error :: "string \<Rightarrow> 'a L0_ErrorSlot_scheme \<Rightarrow> 'a L0_ErrorSlot_scheme" where
  "runtime_error msg s =
     s\<lparr>l0_parser_error_status := L0_PARSE_ERROR_RUNTIME, l0_parser_error_message := Some msg\<rparr>"

text \<open>
  What a call does: it returns a pointer (null is \<open>None\<close>) together with the state it
  leaves; or the process stops (a failed \<^verbatim>\<open>assert\<close>, or a read the C standard leaves
  undefined, such as the car of a value that is not a pair); or the call has not returned
  within the recursion budget of the embedding.
\<close>

datatype 'r outcome = Return 'r | Crash | Timeout

section \<open>Arithmetic and comparison primitives (l0\_primitives.c)\<close>

text \<open>\<^verbatim>\<open>get_numeric_as_double\<close>: the double, or the type error written to the slot.\<close>

definition get_numeric_as_double ::
  "'d double_ops \<Rightarrow> 'd L0_Value \<Rightarrow> string \<Rightarrow> 'a L0_ErrorSlot_scheme
     \<Rightarrow> 'd option \<times> 'a L0_ErrorSlot_scheme" where
  "get_numeric_as_double ops val prim_name s =
     (case val of
        L0_Integer i \<Rightarrow> (Some (d_of_long ops i), s)
      | L0_Float f \<Rightarrow> (Some f, s)
      | _ \<Rightarrow> (None, runtime_error
                 (take 99 (''Primitive '' @ [CHR 0x27] @ prim_name @ [CHR 0x27]
                             @ '': Expected integer or float argument.'')) s))"

text \<open>
  \<^verbatim>\<open>prim_add\<close>.  The loop carries \<^verbatim>\<open>int_sum\<close>, \<^verbatim>\<open>float_sum\<close> and \<^verbatim>\<open>has_float\<close>
  along the argument list; after it ends the list must have ended in nil.
\<close>

fun prim_add_loop ::
  "'d double_ops \<Rightarrow> 'd L0_Value \<Rightarrow> 64 word \<Rightarrow> 'd \<Rightarrow> bool \<Rightarrow> 'a L0_ErrorSlot_scheme
     \<Rightarrow> 'd L0_Value option \<times> 'a L0_ErrorSlot_scheme" where
  "prim_add_loop ops (L0_Pair arg rest) int_sum float_sum has_float s =
     (case arg of
        L0_Float f \<Rightarrow>
          prim_add_loop ops rest int_sum
            (d_add ops (if has_float then float_sum else d_of_long ops int_sum) f) True s
      | L0_Integer i \<Rightarrow>
          (if has_float
           then prim_add_loop ops rest int_sum (d_add ops float_sum (d_of_long ops i)) True s
           else prim_add_loop ops rest (int_sum + i) float_sum False s)
      | _ \<Rightarrow> (None, runtime_error
                 ''Primitive '+': Arguments must be numbers (integer or float).'' s))"
| "prim_add_loop ops L0_NIL int_sum float_sum has_float s =
     (if has_float then (Some (L0_Float float_sum), s) else (Some (L0_Integer int_sum), s))"
| "prim_add_loop ops current int_sum float_sum has_float s =
     (None, runtime_error ''Primitive '+': Argument list is not a proper list.'' s)"

definition prim_add ::
  "'d double_ops \<Rightarrow> 'd L0_Value \<Rightarrow> 'a L0_ErrorSlot_scheme
     \<Rightarrow> ('d L0_Value option \<times> 'a L0_ErrorSlot_scheme) outcome" where
  "prim_add ops args s = Return (prim_add_loop ops args 0 (d_zero ops) False s)"

text \<open>\<^verbatim>\<open>prim_multiply\<close>, the same loop with products.\<close>

fun prim_multiply_loop ::
  "'d double_ops \<Rightarrow> 'd L0_Value \<Rightarrow> 64 word \<Rightarrow> 'd \<Rightarrow> bool \<Rightarrow> 'a L0_ErrorSlot_scheme
     \<Rightarrow> 'd L0_Value option \<times> 'a L0_ErrorSlot_scheme" where
  "prim_multiply_loop ops (L0_Pair arg rest) int_product float_product has_float s =
     (case arg of
        L0_Float f \<Rightarrow>
          prim_multiply_loop ops rest int_product
            (d_mul ops (if has_float then float_product else d_of_long ops int_product) f) True s
      | L0_Integer i \<Rightarrow>
          (if has_float
           then prim_multiply_loop ops rest int_product
                  (d_mul ops float_product (d_of_long ops i)) True s
           else prim_multiply_loop ops rest (int_product * i) float_product False s)
      | _ \<Rightarrow> (None, runtime_error
                 ''Primitive '*': Arguments must be numbers (integer or float).'' s))"
| "prim_multiply_loop ops L0_NIL int_product float_product has_float s =
     (if has_float then (Some (L0_Float float_product), s)
      else (Some (L0_Integer int_product), s))"
| "prim_multiply_loop ops current int_product float_product has_float s =
     (None, runtime_error ''Primitive '*': Argument list is not a proper list.'' s)"

definition prim_multiply ::
  "'d double_ops \<Rightarrow> 'd L0_Value \<Rightarrow> 'a L0_ErrorSlot_scheme
     \<Rightarrow> ('d L0_Value option \<times> 'a L0_ErrorSlot_scheme) outcome" where
  "prim_multiply ops args s = Return (prim_multiply_loop ops args 1 (d_one ops) False s)"

text \<open>
  \<^verbatim>\<open>prim_subtract\<close>.  The first argument is read with \<^verbatim>\<open>args->data.pair.car\<close> after the
  only test \<^verbatim>\<open>l0_is_nil(args)\<close>: on an argument value that is neither nil nor a pair the
  read is undefined.  The integer result is kept as \<^verbatim>\<open>(long)first_val_d\<close>, a round trip
  through double.
\<close>

fun prim_subtract_loop ::
  "'d double_ops \<Rightarrow> 'd L0_Value \<Rightarrow> 64 word \<Rightarrow> 'd \<Rightarrow> bool \<Rightarrow> 'a L0_ErrorSlot_scheme
     \<Rightarrow> 'd L0_Value option \<times> 'a L0_ErrorSlot_scheme" where
  "prim_subtract_loop ops (L0_Pair arg rest) int_result float_result has_float s =
     (case get_numeric_as_double ops arg ''-'' s of
        (None, s') \<Rightarrow> (None, s')
      | (Some arg_val_d, s') \<Rightarrow>
          (let promote = l0_is_float (Some arg) \<and> \<not> has_float;
               float_result' = (if promote then d_of_long ops int_result else float_result);
               has_float' = (has_float \<or> promote)
           in if has_float'
              then prim_subtract_loop ops rest int_result
                     (d_sub ops float_result' arg_val_d) True s'
              else prim_subtract_loop ops rest (int_result - d_to_long ops arg_val_d)
                     float_result' False s'))"
| "prim_subtract_loop ops L0_NIL int_result float_result has_float s =
     (if has_float then (Some (L0_Float float_result), s)
      else (Some (L0_Integer int_result), s))"
| "prim_subtract_loop ops current int_result float_result has_float s =
     (None, runtime_error ''Primitive '-': Argument list is not a proper list.'' s)"

definition prim_subtract ::
  "'d double_ops \<Rightarrow> 'd L0_Value \<Rightarrow> 'a L0_ErrorSlot_scheme
     \<Rightarrow> ('d L0_Value option \<times> 'a L0_ErrorSlot_scheme) outcome" where
  "prim_subtract ops args s =
     (case args of
        L0_NIL \<Rightarrow> Return (None, runtime_error
                    ''Primitive '-': Requires at least one argument.'' s)
      | L0_Pair first_arg current \<Rightarrow>
          (case get_numeric_as_double ops first_arg ''-'' s of
             (None, s') \<Rightarrow> Return (None, s')
           | (Some first_val_d, s') \<Rightarrow>
               (let has_float = l0_is_float (Some first_arg) in
                if l0_is_nil (Some current)
                then (if has_float then Return (Some (L0_Float (d_neg ops first_val_d)), s')
                      else Return (Some (L0_Integer (- d_to_long ops first_val_d)), s'))
                else Return (prim_subtract_loop ops current (d_to_long ops first_val_d)
                               first_val_d has_float s')))
      | _ \<Rightarrow> Crash)"

text \<open>\<^verbatim>\<open>prim_divide\<close>: the result is always built by \<^verbatim>\<open>l0_make_float\<close>.\<close>

fun prim_divide_loop ::
  "'d double_ops \<Rightarrow> 'd L0_Value \<Rightarrow> 'd \<Rightarrow> 'a L0_ErrorSlot_scheme
     \<Rightarrow> 'd L0_Value option \<times> 'a L0_ErrorSlot_scheme" where
  "prim_divide_loop ops (L0_Pair arg rest) result_d s =
     (case get_numeric_as_double ops arg ''/'' s of
        (None, s') \<Rightarrow> (None, s')
      | (Some arg_val_d, s') \<Rightarrow>
          (if d_eq ops arg_val_d (d_zero ops)
           then (None, runtime_error ''Primitive '/': Division by zero.'' s')
           else prim_divide_loop ops rest (d_div ops result_d arg_val_d) s'))"
| "prim_divide_loop ops L0_NIL result_d s = (Some (L0_Float result_d), s)"
| "prim_divide_loop ops current result_d s =
     (None, runtime_error ''Primitive '/': Argument list is not a proper list.'' s)"

definition prim_divide ::
  "'d double_ops \<Rightarrow> 'd L0_Value \<Rightarrow> 'a L0_ErrorSlot_scheme
     \<Rightarrow> ('d L0_Value option \<times> 'a L0_ErrorSlot_scheme) outcome" where
  "prim_divide ops args s =
     (case args of
        L0_NIL \<Rightarrow> Return (None, runtime_error
                    ''Primitive '/': Requires at least one argument.'' s)
      | L0_Pair first_arg current \<Rightarrow>
          (case get_numeric_as_double ops first_arg ''/'' s of
             (None, s') \<Rightarrow> Return (None, s')
           | (Some first_val_d, s') \<Rightarrow>
               (if l0_is_nil (Some current)
                then (if d_eq ops first_val_d (d_zero ops)
                      then Return (None, runtime_error
                                     ''Primitive '/': Division by zero (1/0).'' s')
                      else Return (Some (L0_Float (d_div ops (d_one ops) first_val_d)), s'))
                else Return (prim_divide_loop ops current first_val_d s')))
      | _ \<Rightarrow> Crash)"

text \<open>
  \<^verbatim>\<open>prim_equal\<close>.  With no argument or one argument it returns true at once.  Each further
  argument is compared with the first one.  When either side is not a number the slot
  that \<^verbatim>\<open>get_numeric_as_double\<close> has just written is reset and the answer is false.
\<close>

fun prim_equal_loop ::
  "'d double_ops \<Rightarrow> 'd option \<Rightarrow> 'd L0_Value \<Rightarrow> 'a L0_ErrorSlot_scheme
     \<Rightarrow> 'd L0_Value option \<times> 'a L0_ErrorSlot_scheme" where
  "prim_equal_loop ops first_d (L0_Pair next rest) s =
     (case get_numeric_as_double ops next ''='' s of
        (next_d, s') \<Rightarrow>
          (case (first_d, next_d) of
             (Some fd, Some nd) \<Rightarrow>
               (if \<not> d_eq ops fd nd then (Some (L0_Boolean False), s')
                else prim_equal_loop ops first_d rest s')
           | _ \<Rightarrow> (Some (L0_Boolean False),
                    s'\<lparr>l0_parser_error_status := L0_PARSE_OK,
                       l0_parser_error_message := None\<rparr>)))"
| "prim_equal_loop ops first_d L0_NIL s = (Some (L0_Boolean True), s)"
| "prim_equal_loop ops first_d current s =
     (None, runtime_error ''Primitive '=': Argument list is not a proper list.'' s)"

definition prim_equal ::
  "'d double_ops \<Rightarrow> 'd L0_Value \<Rightarrow> 'a L0_ErrorSlot_scheme
     \<Rightarrow> ('d L0_Value option \<times> 'a L0_ErrorSlot_scheme) outcome" where
  "prim_equal ops args s =
     (case args of
        L0_NIL \<Rightarrow> Return (Some (L0_Boolean True), s)
      | L0_Pair first current \<Rightarrow>
          (if l0_is_nil (Some current) then Return (Some (L0_Boolean True), s)
           else (case get_numeric_as_double ops first ''='' s of
                   (first_d, s') \<Rightarrow> Return (prim_equal_loop ops first_d current s')))
      | _ \<Rightarrow> Crash)"

text \<open>
  \<^verbatim>\<open>prim_less_than\<close> and \<^verbatim>\<open>prim_greater_than\<close> compare each argument with the one
  before it, and return null on an argument that is not a number.
\<close>

fun prim_less_than_loop ::
  "'d double_ops \<Rightarrow> 'd \<Rightarrow> 'd L0_Value \<Rightarrow> 'a L0_ErrorSlot_scheme
     \<Rightarrow> 'd L0_Value option \<times> 'a L0_ErrorSlot_scheme" where
  "prim_less_than_loop ops prev_d (L0_Pair current rest) s =
     (case get_numeric_as_double ops current ''<'' s of
        (None, s') \<Rightarrow> (None, s')
      | (Some current_d, s') \<Rightarrow>
          (if \<not> d_lt ops prev_d current_d then (Some (L0_Boolean False), s')
           else prim_less_than_loop ops current_d rest s'))"
| "prim_less_than_loop ops prev_d L0_NIL s = (Some (L0_Boolean True), s)"
| "prim_less_than_loop ops prev_d current_pair s =
     (None, runtime_error ''Primitive '<': Argument list is not a proper list.'' s)"

definition prim_less_than ::
  "'d double_ops \<Rightarrow> 'd L0_Value \<Rightarrow> 'a L0_ErrorSlot_scheme
     \<Rightarrow> ('d L0_Value option \<times> 'a L0_ErrorSlot_scheme) outcome" where
  "prim_less_than ops args s =
     (case args of
        L0_NIL \<Rightarrow> Return (Some (L0_Boolean True), s)
      | L0_Pair prev current_pair \<Rightarrow>
          (if l0_is_nil (Some current_pair) then Return (Some (L0_Boolean True), s)
           else (case get_numeric_as_double ops prev ''<'' s of
                   (None, s') \<Rightarrow> Return (None, s')
                 | (Some prev_d, s') \<Rightarrow>
                     Return (prim_less_than_loop ops prev_d current_pair s')))
      | _ \<Rightarrow> Crash)"

fun prim_greater_than_loop ::
  "'d double_ops \<Rightarrow> 'd \<Rightarrow> 'd L0_Value \<Rightarrow> 'a L0_ErrorSlot_scheme
     \<Rightarrow> 'd L0_Value option \<times> 'a L0_ErrorSlot_scheme" where
  "prim_greater_than_loop ops prev_d (L0_Pair current rest) s =
     (case get_numeric_as_double ops current ''>'' s of
        (None, s') \<Rightarrow> (None, s')
      | (Some current_d, s') \<Rightarrow>
          (if \<not> d_gt ops prev_d current_d then (Some (L0_Boolean False), s')
           else prim_greater_than_loop ops current_d rest s'))"
| "prim_greater_than_loop ops prev_d L0_NIL s = (Some (L0_Boolean True), s)"
| "prim_greater_than_loop ops prev_d current_pair s =
     (None, runtime_error ''Primitive '>': Argument list is not a proper list.'' s)"

definition prim_greater_than ::
  "'d double_ops \<Rightarrow> 'd L0_Value \<Rightarrow> 'a L0_ErrorSlot_scheme
     \<Rightarrow> ('d L0_Value option \<times> 'a L0_ErrorSlot_scheme) outcome" where
  "prim_greater_than ops args s =
     (case args of
        L0_NIL \<Rightarrow> Return (Some (L0_Boolean True), s)
      | L0_Pair prev current_pair \<Rightarrow>
          (if l0_is_nil (Some current_pair) then Return (Some (L0_Boolean True), s)
           else (case get_numeric_as_double ops prev ''>'' s of
                   (None, s') \<Rightarrow> Return (None, s')
                 | (Some prev_d, s') \<Rightarrow>
                     Return (prim_greater_than_loop ops prev_d current_pair s')))
      | _ \<Rightarrow> Crash)"

text \<open>An argument list as the evaluator builds it: the values chained by pairs up to nil.\<close>

fun list_value :: "'d L0_Value list \<Rightarrow> 'd L0_Value" where
  "list_value [] = L0_NIL"
| "list_value (v # vs) = L0_Pair v (list_value vs)"

definition is_number :: "'d L0_Value \<Rightarrow> bool" where
  "is_number v = (l0_is_integer (Some v) \<or> l0_is_float (Some v))"

text \<open>The double that \<^verbatim>\<open>get_numeric_as_double\<close> reads from a number.\<close>

fun as_double :: "'d double_ops \<Rightarrow> 'd L0_Value \<Rightarrow> 'd" where
  "as_double ops (L0_Integer i) = d_of_long ops i"
| "as_double ops (L0_Float f) = f"
| "as_double ops v = d_zero ops"

text \<open>
  A stand-in for C doubles on which the definitions can be run: rationals, with the
  conversion from double to long truncating towards zero.
\<close>

definition rat_ops :: "rat double_ops" where
  "rat_ops = \<lparr> d_of_long = (\<lambda>w. of_int (sint w)),
               d_to_long = (\<lambda>q. word_of_int (if q < 0 then - \<lfloor>- q\<rfloor> else \<lfloor>q\<rfloor>)),
               d_zero = 0, d_one = 1,
               d_add = (+), d_sub = (-), d_mul = (*), d_div = (/),
               d_neg = uminus, d_eq = (=), d_lt = (<), d_gt = (>) \<rparr>"

definition clean_slot :: L0_ErrorSlot where
  "clean_slot = \<lparr> l0_parser_error_status = L0_PARSE_OK, l0_parser_error_message = None,
                  l0_parser_error_line = 1, l0_parser_error_col = 1 \<rparr>"

text \<open>
  The arguments \<^verbatim>\<open>prim_equal\<close> reads with \<^verbatim>\<open>get_numeric_as_double\<close> before it returns:
  none when there are fewer than two; otherwise the first, and the following ones up to
  and including the first that is not a number, that is compared with a first argument
  that is not a number, or that differs from the first.
\<close>

fun compared_rest :: "'d double_ops \<Rightarrow> 'd L0_Value \<Rightarrow> 'd L0_Value list \<Rightarrow> 'd L0_Value list" where
  "compared_rest ops first [] = []"
| "compared_rest ops first (x # xs) =
     x # (if is_number first \<and> is_number x \<and> d_eq ops (as_double ops first) (as_double ops x)
          then compared_rest ops first xs else [])"

definition compared_args :: "'d double_ops \<Rightarrow> 'd L0_Value list \<Rightarrow> 'd L0_Value list" where
  "compared_args ops vs =
     (case vs of first # x # xs \<Rightarrow> first # compared_rest ops first (x # xs) | _ \<Rightarrow> [])"

text \<open>
  The arguments \<^verbatim>\<open>prim_divide\<close> divides by: the only argument of \<^verbatim>\<open>(/ x)\<close>, which
  computes 1/x, and otherwise every argument after the first.
\<close>

definition divisors :: "'d L0_Value list \<Rightarrow> 'd L0_Value list" where
  "divisors vs = (case vs of [] \<Rightarrow> [] | [x] \<Rightarrow> [x] | x # y # ys \<Rightarrow> y # ys)"

text \<open>Whether every element after the first stands in the relation to the first.\<close>

fun equal_to_first :: "('d \<Rightarrow> 'd \<Rightarrow> bool) \<Rightarrow> 'd list \<Rightarrow> bool" where
  "equal_to_first r [] = True"
| "equal_to_first r (x # xs) = list_all (r x) xs"

text \<open>Whether each element stands in the relation to the next one.\<close>

fun chain :: "('d \<Rightarrow> 'd \<Rightarrow> bool) \<Rightarrow> 'd list \<Rightarrow> bool" where
  "chain r [] = True"
| "chain r [x] = True"
| "chain r (x # y # zs) = (r x y \<and> chain r (y # zs))"

section \<open>Environments (l0\_env.h, l0\_env.c)\<close>

text \<open>
  An \<^verbatim>\<open>L0_Env\<close> struct holds a frame and the pointer to the enclosing environment.  The
  structs live in the arena and closures share them by pointer, so the state holds them
  in a list and an \<^verbatim>\<open>L0_Env*\<close> is an index into it; \<^verbatim>\<open>l0_env_create\<close> appends.  A frame
  is the association list of \<^verbatim>\<open>(symbol . value)\<close> pairs; only \<^verbatim>\<open>l0_env_define\<close> builds
  it, always with a symbol as the key, so a binding is kept as the symbol's name and the
  value.  The evaluator's three static depth counters are part of the state too.
\<close>

record 'd L0_Env =
  frame :: "(string \<times> 'd L0_Value) list"
  outer :: "nat option"

record 'd L0_World = L0_ErrorSlot +
  envs :: "'d L0_Env list"
  eval_depth :: int
  eval_list_depth :: int
  macroexpand_depth :: int

text \<open>The first binding of the name in a frame, as the scan of the list finds it.\<close>

fun frame_lookup :: "(string \<times> 'd L0_Value) list \<Rightarrow> string \<Rightarrow> 'd L0_Value option" where
  "frame_lookup [] name = None"
| "frame_lookup ((k, v) # bs) name = (if k = name then Some v else frame_lookup bs name)"

text \<open>
  \<^verbatim>\<open>l0_env_lookup\<close> walks the chain of \<^verbatim>\<open>outer\<close> pointers.  \<^verbatim>\<open>outer\<close> is assigned once,
  in \<^verbatim>\<open>l0_env_create\<close>, with an environment that exists already, so a chain never
  visits more environments than have been created: that number bounds the walk here.
  The cycle check of the source guards against a frame list that loops; a frame here is
  a finite list.
\<close>

fun lookup_chain ::
  "nat \<Rightarrow> 'd L0_Env list \<Rightarrow> nat \<Rightarrow> string \<Rightarrow> 'd L0_Value option" where
  "lookup_chain 0 es e name = None"
| "lookup_chain (Suc k) es e name =
     (if e < length es
      then (case frame_lookup (frame (es ! e)) name of
              Some v \<Rightarrow> Some v
            | None \<Rightarrow> (case outer (es ! e) of
                         None \<Rightarrow> None
                       | Some out \<Rightarrow> lookup_chain k es out name))
      else None)"

definition l0_env_lookup :: "'d L0_World \<Rightarrow> nat \<Rightarrow> string \<Rightarrow> 'd L0_Value option" where
  "l0_env_lookup s env name = lookup_chain (length (envs s)) (envs s) env name"

text \<open>
  Overwriting the value of the first binding of the name
  (\<^verbatim>\<open>binding->data.pair.cdr = value\<close>); \<open>None\<close> when the frame has no such binding.
\<close>

fun frame_assign ::
  "string \<Rightarrow> 'd L0_Value \<Rightarrow> (string \<times> 'd L0_Value) list
     \<Rightarrow> (string \<times> 'd L0_Value) list option" where
  "frame_assign name v [] = None"
| "frame_assign name v ((k, x) # bs) =
     (if k = name then Some ((k, v) # bs)
      else (case frame_assign name v bs of
              None \<Rightarrow> None
            | Some bs' \<Rightarrow> Some ((k, x) # bs')))"

text \<open>\<^verbatim>\<open>l0_env_define\<close>: update in the current frame, or prepend a new binding to it.\<close>

definition l0_env_define ::
  "nat \<Rightarrow> string \<Rightarrow> 'd L0_Value \<Rightarrow> 'd L0_World \<Rightarrow> 'd L0_World" where
  "l0_env_define env name v s =
     (let cell = envs s ! env;
          frame' = (case frame_assign name v (frame cell) of
                      Some f \<Rightarrow> f
                    | None \<Rightarrow> (name, v) # frame cell)
      in s\<lparr>envs := (envs s)[env := cell\<lparr>frame := frame'\<rparr>]\<rparr>)"

text \<open>
  \<^verbatim>\<open>l0_env_set\<close>: update the nearest binding along the chain; \<open>None\<close> is the result
  \<^verbatim>\<open>false\<close>, which leaves everything as it was (the error slot too).
\<close>

fun set_chain ::
  "nat \<Rightarrow> 'd L0_Env list \<Rightarrow> nat \<Rightarrow> string \<Rightarrow> 'd L0_Value \<Rightarrow> 'd L0_Env list option" where
  "set_chain 0 es e name v = None"
| "set_chain (Suc k) es e name v =
     (if e < length es
      then (case frame_assign name v (frame (es ! e)) of
              Some f \<Rightarrow> Some (es[e := (es ! e)\<lparr>frame := f\<rparr>])
            | None \<Rightarrow> (case outer (es ! e) of
                         None \<Rightarrow> None
                       | Some out \<Rightarrow> set_chain k es out name v))
      else None)"

definition l0_env_set ::
  "nat \<Rightarrow> string \<Rightarrow> 'd L0_Value \<Rightarrow> 'd L0_World \<Rightarrow> 'd L0_World option" where
  "l0_env_set env name v s =
     (case set_chain (length (envs s)) (envs s) env name v of
        None \<Rightarrow> None
      | Some es \<Rightarrow> Some (s\<lparr>envs := es\<rparr>))"

text \<open>\<^verbatim>\<open>l0_env_extend\<close>: a new environment with an empty frame; its handle and the state.\<close>

definition l0_env_extend :: "nat \<Rightarrow> 'd L0_World \<Rightarrow> nat \<times> 'd L0_World" where
  "l0_env_extend outer_env s =
     (length (envs s), s\<lparr>envs := envs s @ [\<lparr>frame = [], outer = Some outer_env\<rparr>]\<rparr>)"

section \<open>The evaluator (l0\_eval.c)\<close>

datatype L0_SpecialFormType =
    SF_NONE | SF_QUOTE | SF_QUASIQUOTE | SF_IF | SF_LAMBDA | SF_DEFINE | SF_SET | SF_LET
  | SF_DEFMACRO | SF_AND | SF_OR | SF_BEGIN | SF_COND | SF_UNQUOTE

definition get_special_form_type :: "string \<Rightarrow> L0_SpecialFormType" where
  "get_special_form_type name =
     (if name = ''if'' then SF_IF
      else if name = ''lambda'' then SF_LAMBDA
      else if name = ''define'' then SF_DEFINE
      else if name = ''quasiquote'' then SF_QUASIQUOTE
      else if name = ''quote'' then SF_QUOTE
      else if name = ''set!'' then SF_SET
      else if name = ''let'' then SF_LET
      else if name = ''begin'' then SF_BEGIN
      else if name = ''cond'' then SF_COND
      else if name = ''and'' then SF_AND
      else if name = ''or'' then SF_OR
      else if name = ''defmacro'' then SF_DEFMACRO
      else if name = ''unquote'' then SF_UNQUOTE
      else if name = ''unquote-splicing'' then SF_UNQUOTE
      else SF_NONE)"

text \<open>The tag of a value printed with \<^verbatim>\<open>%d\<close>: the position of its tag in \<^verbatim>\<open>L0_ValueType\<close>.\<close>

fun type_decimal :: "'d L0_Value \<Rightarrow> string" where
  "type_decimal L0_NIL = ''0''"
| "type_decimal (L0_Boolean b) = ''1''"
| "type_decimal (L0_Integer i) = ''2''"
| "type_decimal (L0_Symbol n) = ''3''"
| "type_decimal (L0_Pair a b) = ''4''"
| "type_decimal (L0_String t) = ''5''"
| "type_decimal (L0_Primitive n) = ''6''"
| "type_decimal (L0_Closure p b e) = ''7''"
| "type_decimal (L0_Float f) = ''8''"
| "type_decimal (L0_Ref r) = ''9''"

text \<open>
  The recursive entry points.  \<^verbatim>\<open>l0_eval\<close>, \<^verbatim>\<open>l0_expand_quasiquote\<close> and
  \<^verbatim>\<open>l0_macroexpand\<close> call themselves and each other, also in tail position where the
  source's own depth counter does not count the call, so nothing in the code bounds their
  nesting.  The embedding gives each of these calls one unit of a budget: the body of each
  function is a definition that makes its recursive calls through the parameter \<open>rec\<close>,
  and \<open>l0_run\<close> below ties the knot by recursion on the budget.  A call left with no
  budget is \<open>Timeout\<close>.  Loops, and the recursion of \<^verbatim>\<open>l0_eval_list\<close> along its list, are
  structural and take no budget.
\<close>

datatype 'd l0_call =
    Call_eval "'d L0_Value" nat
  | Call_apply "'d L0_Value" "'d L0_Value" nat
  | Call_expand_quasiquote "'d L0_Value" nat int
  | Call_macroexpand "'d L0_Value" nat

type_synonym 'd l0_result = "('d L0_Value option \<times> 'd L0_World) outcome"

type_synonym 'd l0_rec = "'d l0_call \<Rightarrow> 'd L0_World \<Rightarrow> 'd l0_result"

text \<open>
  The host functions behind primitive values (\<^verbatim>\<open>L0_PrimitiveFunc\<close>): given the name the
  primitive was registered under, the argument list and the environment, a host function
  returns like any other call, and may call back into the evaluator.
\<close>

type_synonym 'd l0_host =
  "string \<Rightarrow> 'd l0_rec \<Rightarrow> 'd L0_Value \<Rightarrow> nat \<Rightarrow> 'd L0_World \<Rightarrow> 'd l0_result"

definition MAX_EVAL_DEPTH :: int where "MAX_EVAL_DEPTH = 1000"

definition MAX_MACROEXPAND_DEPTH :: int where "MAX_MACROEXPAND_DEPTH = 500"

text \<open>\<^verbatim>\<open>eval_depth--\<close>, which precedes every return of \<^verbatim>\<open>l0_eval\<close>.\<close>

definition leave :: "'d L0_World \<Rightarrow> 'd L0_World" where
  "leave s = s\<lparr>eval_depth := eval_depth s - 1\<rparr>"

text \<open>
  The test after a call, \<^verbatim>\<open>if (!result || l0_parser_error_status != L0_PARSE_OK)\<close>: on a null
  result or a dirty slot the caller takes its failure exit, otherwise it goes on with the
  value.
\<close>

definition on_value ::
  "'d l0_result \<Rightarrow> ('d L0_World \<Rightarrow> 'd l0_result)
     \<Rightarrow> ('d L0_Value \<Rightarrow> 'd L0_World \<Rightarrow> 'd l0_result) \<Rightarrow> 'd l0_result" where
  "on_value r fail k =
     (case r of
        Return (Some v, s) \<Rightarrow>
          (if l0_parser_error_status s \<noteq> L0_PARSE_OK then fail s else k v s)
      | Return (None, s) \<Rightarrow> fail s
      | Crash \<Rightarrow> Crash
      | Timeout \<Rightarrow> Timeout)"

text \<open>The truth test the special forms write inline: everything but \<^verbatim>\<open>#f\<close> is true.\<close>

definition is_true :: "'d L0_Value \<Rightarrow> bool" where
  "is_true r = (\<not> (l0_is_boolean (Some r) \<and> (case r of L0_Boolean b \<Rightarrow> \<not> b | _ \<Rightarrow> False)))"

subsection \<open>\<^verbatim>\<open>l0_eval_sequence\<close> and \<^verbatim>\<open>l0_eval_list\<close>\<close>

fun eval_sequence_loop ::
  "'d l0_rec \<Rightarrow> 'd L0_Value \<Rightarrow> nat \<Rightarrow> 'd L0_Value \<Rightarrow> 'd L0_World \<Rightarrow> 'd l0_result" where
  "eval_sequence_loop rec (L0_Pair expr_to_eval rest) env result s =
     (case rec (Call_eval expr_to_eval env) s of
        Return (Some v, s') \<Rightarrow>
          (if l0_parser_error_status s' \<noteq> L0_PARSE_OK then Return (None, s')
           else eval_sequence_loop rec rest env v s')
      | Return (None, s') \<Rightarrow> Return (None, s')
      | Crash \<Rightarrow> Crash
      | Timeout \<Rightarrow> Timeout)"
| "eval_sequence_loop rec L0_NIL env result s = Return (Some result, s)"
| "eval_sequence_loop rec current env result s =
     Return (None, runtime_error ''Body sequence is not a proper list.'' s)"

definition l0_eval_sequence ::
  "'d l0_rec \<Rightarrow> 'd L0_Value \<Rightarrow> nat \<Rightarrow> 'd L0_World \<Rightarrow> 'd l0_result" where
  "l0_eval_sequence rec seq env s = eval_sequence_loop rec seq env L0_NIL s"

definition leave_list :: "'d L0_World \<Rightarrow> 'd L0_World" where
  "leave_list s = s\<lparr>eval_list_depth := eval_list_depth s - 1\<rparr>"

fun l0_eval_list ::
  "'d l0_rec \<Rightarrow> 'd L0_Value \<Rightarrow> nat \<Rightarrow> 'd L0_World \<Rightarrow> 'd l0_result" where
  "l0_eval_list rec (L0_Pair a d) env s0 =
     (let s = s0\<lparr>eval_list_depth := eval_list_depth s0 + 1\<rparr> in
      if eval_list_depth s > 1000
      then Return (None, leave_list (runtime_error
             ''Stack overflow suspected in argument list evaluation.'' s))
      else (case rec (Call_eval a env) s of
              Return (Some first_evaled, s1) \<Rightarrow>
                (if l0_parser_error_status s1 \<noteq> L0_PARSE_OK then Return (None, leave_list s1)
                 else (case l0_eval_list rec d env s1 of
                         Return (Some rest_evaled, s2) \<Rightarrow>
                           (if l0_parser_error_status s2 \<noteq> L0_PARSE_OK
                            then Return (None, leave_list s2)
                            else Return (Some (L0_Pair first_evaled rest_evaled),
                                         leave_list s2))
                       | Return (None, s2) \<Rightarrow> Return (None, leave_list s2)
                       | Crash \<Rightarrow> Crash
                       | Timeout \<Rightarrow> Timeout))
            | Return (None, s1) \<Rightarrow> Return (None, leave_list s1)
            | Crash \<Rightarrow> Crash
            | Timeout \<Rightarrow> Timeout))"
| "l0_eval_list rec L0_NIL env s0 =
     (let s = s0\<lparr>eval_list_depth := eval_list_depth s0 + 1\<rparr> in
      if eval_list_depth s > 1000
      then Return (None, leave_list (runtime_error
             ''Stack overflow suspected in argument list evaluation.'' s))
      else Return (Some L0_NIL, leave_list s))"
| "l0_eval_list rec list env s0 =
     (let s = s0\<lparr>eval_list_depth := eval_list_depth s0 + 1\<rparr> in
      if eval_list_depth s > 1000
      then Return (None, leave_list (runtime_error
             ''Stack overflow suspected in argument list evaluation.'' s))
      else Return (None, leave_list (runtime_error
             ''Cannot evaluate list: input is not a pair or nil.'' s)))"

subsection \<open>\<^verbatim>\<open>l0_apply\<close>\<close>

text \<open>
  The loop that binds parameters to arguments runs while both lists are pairs and hands
  back what is left of each.  \<^verbatim>\<open>l0_env_define\<close> asserts that the parameter is a symbol.
\<close>

fun bind_loop ::
  "'d L0_Value \<Rightarrow> 'd L0_Value \<Rightarrow> nat \<Rightarrow> 'd L0_World
     \<Rightarrow> ('d L0_Value \<times> 'd L0_Value \<times> 'd L0_World) outcome" where
  "bind_loop (L0_Pair param_sym params) (L0_Pair arg_val args) call_env s =
     (case param_sym of
        L0_Symbol name \<Rightarrow> bind_loop params args call_env (l0_env_define call_env name arg_val s)
      | _ \<Rightarrow> Crash)"
| "bind_loop current_param_node current_arg_node call_env s =
     Return (current_param_node, current_arg_node, s)"

definition l0_apply ::
  "'d l0_host \<Rightarrow> 'd l0_rec \<Rightarrow> 'd L0_Value \<Rightarrow> 'd L0_Value \<Rightarrow> nat \<Rightarrow> 'd L0_World
     \<Rightarrow> 'd l0_result" where
  "l0_apply host rec func args env s =
     (case func of
        L0_Primitive prim_name \<Rightarrow> host prim_name rec args env s
      | L0_Closure params body closure_env \<Rightarrow>
          (case l0_env_extend closure_env s of
             (call_env, s1) \<Rightarrow>
               (case bind_loop params args call_env s1 of
                  Return (current_param_node, current_arg_node, s2) \<Rightarrow>
                    (if l0_is_nil (Some current_param_node) \<and> l0_is_nil (Some current_arg_node)
                     then l0_eval_sequence rec body call_env s2
                     else Return (None, runtime_error
                            ''Function called with incorrect number of arguments.'' s2))
                | Crash \<Rightarrow> Crash
                | Timeout \<Rightarrow> Timeout))
      | _ \<Rightarrow> Return (None, runtime_error
                (take 99 (''Attempted to apply non-function value (type ''
                            @ type_decimal func @ '').'')) s))"

subsection \<open>The special forms\<close>

text \<open>
  Each special form is one case of the \<^verbatim>\<open>switch (sf_type)\<close> in \<^verbatim>\<open>l0_eval\<close>.  The state a
  case receives is the one after \<^verbatim>\<open>eval_depth++\<close>.  A failure exit writes the slot, undoes
  the increment and returns null.
\<close>

definition eval_error :: "string \<Rightarrow> 'd L0_World \<Rightarrow> 'd l0_result" where
  "eval_error msg s = Return (None, leave (runtime_error msg s))"

text \<open>Returning what a call returned, after one more statement on the state.\<close>

definition and_then :: "'d l0_result \<Rightarrow> ('d L0_World \<Rightarrow> 'd L0_World) \<Rightarrow> 'd l0_result" where
  "and_then r f = (case r of Return (v, s) \<Rightarrow> Return (v, f s) | Crash \<Rightarrow> Crash | Timeout \<Rightarrow> Timeout)"

definition sf_quote :: "'d L0_Value \<Rightarrow> 'd L0_World \<Rightarrow> 'd l0_result" where
  "sf_quote args_expr s =
     (case args_expr of
        L0_Pair x L0_NIL \<Rightarrow> Return (Some x, leave s)
      | _ \<Rightarrow> eval_error ''Special form 'quote' requires exactly one argument.'' s)"

definition sf_quasiquote ::
  "'d l0_rec \<Rightarrow> 'd L0_Value \<Rightarrow> nat \<Rightarrow> 'd L0_World \<Rightarrow> 'd l0_result" where
  "sf_quasiquote rec args_expr env s =
     (case args_expr of
        L0_Pair template_expr L0_NIL \<Rightarrow>
          and_then (rec (Call_expand_quasiquote template_expr env 1) s) leave
      | _ \<Rightarrow> eval_error ''Special form 'quasiquote' requires exactly one argument.'' s)"

definition sf_if ::
  "'d l0_rec \<Rightarrow> 'd L0_Value \<Rightarrow> nat \<Rightarrow> 'd L0_World \<Rightarrow> 'd l0_result" where
  "sf_if rec args_expr env s =
     (case args_expr of
        L0_Pair condition_expr (L0_Pair true_expr rest_args) \<Rightarrow>
          (case (case rest_args of
                   L0_NIL \<Rightarrow> Some L0_NIL
                 | L0_Pair e L0_NIL \<Rightarrow> Some e
                 | _ \<Rightarrow> None) of
             Some false_expr \<Rightarrow>
               on_value (rec (Call_eval condition_expr env) s)
                 (\<lambda>s1. Return (None, leave s1))
                 (\<lambda>condition_result s1.
                    if is_true condition_result
                    then rec (Call_eval true_expr env) (leave s1)
                    else rec (Call_eval false_expr env) (leave s1))
           | None \<Rightarrow> eval_error
               ''Special form 'if' requires 2 or 3 arguments: (if condition true-expr [false-expr]).'' s)
      | _ \<Rightarrow> eval_error
               ''Special form 'if' requires 2 or 3 arguments: (if condition true-expr [false-expr]).'' s)"

datatype params_check = Params_ok | Param_not_symbol | Params_improper

fun check_params :: "'d L0_Value \<Rightarrow> params_check" where
  "check_params (L0_Pair p rest) =
     (if l0_is_symbol (Some p) then check_params rest else Param_not_symbol)"
| "check_params L0_NIL = Params_ok"
| "check_params current_param = Params_improper"

definition sf_lambda :: "'d L0_Value \<Rightarrow> nat \<Rightarrow> 'd L0_World \<Rightarrow> 'd l0_result" where
  "sf_lambda args_expr env s =
     (case args_expr of
        L0_Pair params (L0_Pair b bs) \<Rightarrow>
          (case check_params params of
             Param_not_symbol \<Rightarrow> eval_error ''Lambda parameters must be symbols.'' s
           | Params_improper \<Rightarrow> eval_error ''Lambda parameters list is not a proper list.'' s
           | Params_ok \<Rightarrow> Return (Some (L0_Closure params (L0_Pair b bs) env), leave s))
      | _ \<Rightarrow> eval_error
               ''Special form 'lambda' requires parameters list and at least one body expression: (lambda (params...) body...).'' s)"

definition sf_define ::
  "'d l0_rec \<Rightarrow> 'd L0_Value \<Rightarrow> nat \<Rightarrow> 'd L0_World \<Rightarrow> 'd l0_result" where
  "sf_define rec args_expr env s =
     (case args_expr of
        L0_Pair target (L0_Pair value_expr L0_NIL) \<Rightarrow>
          (case target of
             L0_Symbol name \<Rightarrow>
               on_value (rec (Call_eval value_expr env) s)
                 (\<lambda>s1. Return (None, leave s1))
                 (\<lambda>value_result s1.
                    Return (Some L0_NIL, leave (l0_env_define env name value_result s1)))
           | L0_Pair func_name_sym params \<Rightarrow>
               (case func_name_sym of
                  L0_Symbol func_name \<Rightarrow>
                    (case check_params params of
                       Param_not_symbol \<Rightarrow>
                         eval_error ''Function definition parameters must be symbols.'' s
                     | Params_improper \<Rightarrow>
                         eval_error
                           ''Function definition parameters list is not a proper list.'' s
                     | Params_ok \<Rightarrow>
                         Return (Some L0_NIL,
                           leave (l0_env_define env func_name
                                    (L0_Closure params (L0_Pair value_expr L0_NIL) env) s)))
                | _ \<Rightarrow> eval_error
                         ''Function name in definition shorthand must be a symbol.'' s)
           | _ \<Rightarrow> eval_error
                    ''First argument to 'define' must be a symbol or a list for function definition.'' s)
      | _ \<Rightarrow> eval_error
               ''Special form 'define' requires exactly two arguments: (define symbol value-expr).'' s)"

text \<open>
  \<^verbatim>\<open>set!\<close>: when \<^verbatim>\<open>l0_env_set\<close> finds no binding the case returns null; neither it nor
  \<^verbatim>\<open>l0_env_set\<close> writes the slot.
\<close>

definition sf_set ::
  "'d l0_rec \<Rightarrow> 'd L0_Value \<Rightarrow> nat \<Rightarrow> 'd L0_World \<Rightarrow> 'd l0_result" where
  "sf_set rec args_expr env s =
     (case args_expr of
        L0_Pair symbol (L0_Pair value_expr L0_NIL) \<Rightarrow>
          (case symbol of
             L0_Symbol name \<Rightarrow>
               on_value (rec (Call_eval value_expr env) s)
                 (\<lambda>s1. Return (None, leave s1))
                 (\<lambda>value_result s1.
                    case l0_env_set env name value_result s1 of
                      None \<Rightarrow> Return (None, leave s1)
                    | Some s2 \<Rightarrow> Return (Some L0_NIL, leave s2))
           | _ \<Rightarrow> eval_error ''First argument to 'set!' must be a symbol.'' s)
      | _ \<Rightarrow> eval_error
               ''Special form 'set!' requires exactly two arguments: (set! symbol value-expr).'' s)"

text \<open>
  The loop over the bindings of \<^verbatim>\<open>let\<close>: each value is evaluated in the enclosing
  environment and defined in the new one.  \<open>Return (True, s)\<close> is the loop running to the
  end of a proper list, \<open>Return (False, s)\<close> a failure exit taken inside.
\<close>

fun let_loop ::
  "'d l0_rec \<Rightarrow> 'd L0_Value \<Rightarrow> nat \<Rightarrow> nat \<Rightarrow> 'd L0_World \<Rightarrow> (bool \<times> 'd L0_World) outcome" where
  "let_loop rec (L0_Pair binding_pair rest) env let_env s =
     (case binding_pair of
        L0_Pair var_symbol (L0_Pair val_expr L0_NIL) \<Rightarrow>
          (case var_symbol of
             L0_Symbol name \<Rightarrow>
               (case rec (Call_eval val_expr env) s of
                  Return (Some evaluated_val, s1) \<Rightarrow>
                    (if l0_parser_error_status s1 \<noteq> L0_PARSE_OK then Return (False, leave s1)
                     else let_loop rec rest env let_env
                            (l0_env_define let_env name evaluated_val s1))
                | Return (None, s1) \<Rightarrow> Return (False, leave s1)
                | Crash \<Rightarrow> Crash
                | Timeout \<Rightarrow> Timeout)
           | _ \<Rightarrow> Return (False, leave (runtime_error
                    ''Let binding variable must be a symbol.'' s)))
      | _ \<Rightarrow> Return (False, leave (runtime_error
               ''Let binding must be a list of two elements: (symbol value-expr).'' s)))"
| "let_loop rec L0_NIL env let_env s = Return (True, s)"
| "let_loop rec current_binding env let_env s =
     Return (False, leave (runtime_error ''Let bindings list is not a proper list.'' s))"

definition sf_let ::
  "'d l0_rec \<Rightarrow> 'd L0_Value \<Rightarrow> nat \<Rightarrow> 'd L0_World \<Rightarrow> 'd l0_result" where
  "sf_let rec args_expr env s =
     (case args_expr of
        L0_Pair bindings (L0_Pair b bs) \<Rightarrow>
          (case l0_env_extend env s of
             (let_env, s1) \<Rightarrow>
               (case let_loop rec bindings env let_env s1 of
                  Return (True, s2) \<Rightarrow> l0_eval_sequence rec (L0_Pair b bs) let_env (leave s2)
                | Return (False, s2) \<Rightarrow> Return (None, s2)
                | Crash \<Rightarrow> Crash
                | Timeout \<Rightarrow> Timeout))
      | _ \<Rightarrow> eval_error
               ''Special form 'let' requires bindings list and at least one body expression: (let ((var val)...) body...).'' s)"

definition sf_defmacro :: "'d L0_Value \<Rightarrow> nat \<Rightarrow> 'd L0_World \<Rightarrow> 'd l0_result" where
  "sf_defmacro args_expr env s =
     (case args_expr of
        L0_Pair macro_name_sym (L0_Pair params (L0_Pair b bs)) \<Rightarrow>
          (case macro_name_sym of
             L0_Symbol macro_name \<Rightarrow>
               (case check_params params of
                  Param_not_symbol \<Rightarrow> eval_error ''Defmacro parameters must be symbols.'' s
                | Params_improper \<Rightarrow>
                    eval_error ''Defmacro parameters list is not a proper list.'' s
                | Params_ok \<Rightarrow>
                    (case l0_env_lookup s env ''*macro-table*'' of
                       None \<Rightarrow> eval_error
                         ''Global variable '*macro-table*' is not defined.'' s
                     | Some current_macro_table \<Rightarrow>
                         (case l0_env_set env ''*macro-table*''
                                 (L0_Pair (L0_Pair macro_name_sym
                                             (L0_Closure params (L0_Pair b bs) env))
                                          current_macro_table) s of
                            None \<Rightarrow> eval_error
                              ''Failed to update '*macro-table*' binding.'' s
                          | Some s1 \<Rightarrow> Return (Some L0_NIL, leave s1))))
           | _ \<Rightarrow> eval_error ''First argument to 'defmacro' (name) must be a symbol.'' s)
      | _ \<Rightarrow> eval_error
               ''Special form 'defmacro' requires name, parameters list, and at least one body expression.'' s)"

text \<open>
  \<^verbatim>\<open>and\<close>, \<^verbatim>\<open>or\<close>: the last argument is a tail call; an earlier one ends the loop when
  it is \<^verbatim>\<open>#f\<close> (for \<^verbatim>\<open>and\<close>) or true (for \<^verbatim>\<open>or\<close>).
\<close>

fun and_loop ::
  "'d l0_rec \<Rightarrow> 'd L0_Value \<Rightarrow> nat \<Rightarrow> 'd L0_Value \<Rightarrow> 'd L0_World \<Rightarrow> 'd l0_result" where
  "and_loop rec (L0_Pair arg_expr rest) env last_result s =
     (if l0_is_nil (Some rest) then rec (Call_eval arg_expr env) (leave s)
      else (case rec (Call_eval arg_expr env) s of
              Return (Some r, s1) \<Rightarrow>
                (if l0_parser_error_status s1 \<noteq> L0_PARSE_OK then Return (None, leave s1)
                 else if \<not> is_true r then Return (Some r, leave s1)
                 else and_loop rec rest env r s1)
            | Return (None, s1) \<Rightarrow> Return (None, leave s1)
            | Crash \<Rightarrow> Crash
            | Timeout \<Rightarrow> Timeout))"
| "and_loop rec current_arg_node env last_result s = Return (Some last_result, leave s)"

definition sf_and ::
  "'d l0_rec \<Rightarrow> 'd L0_Value \<Rightarrow> nat \<Rightarrow> 'd L0_World \<Rightarrow> 'd l0_result" where
  "sf_and rec args_expr env s =
     (if l0_is_nil (Some args_expr) then Return (Some (L0_Boolean True), leave s)
      else if \<not> l0_is_list (Some args_expr)
      then eval_error (CHR 0x27 # ''and' arguments must form a proper list.'') s
      else and_loop rec args_expr env (L0_Boolean True) s)"

fun or_loop ::
  "'d l0_rec \<Rightarrow> 'd L0_Value \<Rightarrow> nat \<Rightarrow> 'd L0_Value \<Rightarrow> 'd L0_World \<Rightarrow> 'd l0_result" where
  "or_loop rec (L0_Pair arg_expr rest) env last_result s =
     (if l0_is_nil (Some rest) then rec (Call_eval arg_expr env) (leave s)
      else (case rec (Call_eval arg_expr env) s of
              Return (Some r, s1) \<Rightarrow>
                (if l0_parser_error_status s1 \<noteq> L0_PARSE_OK then Return (None, leave s1)
                 else if is_true r then Return (Some r, leave s1)
                 else or_loop rec rest env r s1)
            | Return (None, s1) \<Rightarrow> Return (None, leave s1)
            | Crash \<Rightarrow> Crash
            | Timeout \<Rightarrow> Timeout))"
| "or_loop rec current_arg_node env last_result s = Return (Some last_result, leave s)"

definition sf_or ::
  "'d l0_rec \<Rightarrow> 'd L0_Value \<Rightarrow> nat \<Rightarrow> 'd L0_World \<Rightarrow> 'd l0_result" where
  "sf_or rec args_expr env s =
     (if l0_is_nil (Some args_expr) then Return (Some (L0_Boolean False), leave s)
      else if \<not> l0_is_list (Some args_expr)
      then eval_error (CHR 0x27 # ''or' arguments must form a proper list.'') s
      else or_loop rec args_expr env (L0_Boolean False) s)"

text \<open>
  \<^verbatim>\<open>cond\<close>.  A clause whose test is the symbol \<^verbatim>\<open>else\<close> is checked to be the last one only
  when the loop gets to it.  The clause that is taken returns the value of its test (or
  \<^verbatim>\<open>#t\<close> for \<^verbatim>\<open>else\<close>) when it has no body, and otherwise evaluates its body as a sequence.
\<close>

fun cond_loop ::
  "'d l0_rec \<Rightarrow> 'd L0_Value \<Rightarrow> nat \<Rightarrow> 'd L0_World \<Rightarrow> 'd l0_result" where
  "cond_loop rec (L0_Pair clause rest) env s =
     (case clause of
        L0_Pair test_expr body_exprs \<Rightarrow>
          (if test_expr = L0_Symbol ''else''
           then (if \<not> l0_is_nil (Some rest)
                 then eval_error
                        (CHR 0x27 # ''else' clause must be the last clause in 'cond'.'') s
                 else if l0_is_nil (Some body_exprs)
                 then Return (Some (L0_Boolean True), leave s)
                 else l0_eval_sequence rec body_exprs env (leave s))
           else (case rec (Call_eval test_expr env) s of
                   Return (Some test_result, s1) \<Rightarrow>
                     (if l0_parser_error_status s1 \<noteq> L0_PARSE_OK
                      then Return (None, leave s1)
                      else if is_true test_result
                      then (if l0_is_nil (Some body_exprs)
                            then Return (Some test_result, leave s1)
                            else l0_eval_sequence rec body_exprs env (leave s1))
                      else cond_loop rec rest env s1)
                 | Return (None, s1) \<Rightarrow> Return (None, leave s1)
                 | Crash \<Rightarrow> Crash
                 | Timeout \<Rightarrow> Timeout))
      | _ \<Rightarrow> eval_error (CHR 0x27 # ''cond' clause must be a list.'') s)"
| "cond_loop rec L0_NIL env s = Return (Some L0_NIL, leave s)"
| "cond_loop rec current_clause_node env s =
     eval_error (CHR 0x27 # ''cond' clauses must form a proper list.'') s"

definition sf_unquote :: "string \<Rightarrow> 'd L0_World \<Rightarrow> 'd l0_result" where
  "sf_unquote op_sym s =
     eval_error (take 99 (''Runtime Error: '' @ [CHR 0x27] @ op_sym @ [CHR 0x27]
                            @ '' cannot appear outside of a quasiquote.'')) s"

text \<open>
  An application whose operator is a symbol that names no special form.  The macro table
  is looked up first, then searched for the operator; only when it holds no entry for it
  is the operator itself looked up and applied to the evaluated arguments.
\<close>

fun macro_table_search :: "string \<Rightarrow> 'd L0_Value \<Rightarrow> 'd L0_Value option" where
  "macro_table_search op_sym (L0_Pair entry_pair rest) =
     (case entry_pair of
        L0_Pair macro_name transformer \<Rightarrow>
          (if macro_name = L0_Symbol op_sym then Some transformer
           else macro_table_search op_sym rest)
      | _ \<Rightarrow> macro_table_search op_sym rest)"
| "macro_table_search op_sym current_entry_node = None"

definition sf_none ::
  "'d l0_host \<Rightarrow> 'd l0_rec \<Rightarrow> string \<Rightarrow> 'd L0_Value \<Rightarrow> nat \<Rightarrow> 'd L0_World
     \<Rightarrow> 'd l0_result" where
  "sf_none host rec op_sym args_expr env s =
     (case l0_env_lookup s env ''*macro-table*'' of
        None \<Rightarrow> eval_error
          ''Macro check failed: Global variable '*macro-table*' not found.'' s
      | Some current_macro_table \<Rightarrow>
          (if \<not> l0_is_list (Some current_macro_table)
           then eval_error
                  ''Macro check failed: Global variable '*macro-table*' is not a list.'' s
           else (case macro_table_search op_sym current_macro_table of
                   Some transformer_closure \<Rightarrow>
                     (if \<not> l0_is_closure (Some transformer_closure)
                      then eval_error
                             (take 149 (''Macro expansion error: Transformer for ''
                                @ [CHR 0x27] @ op_sym @ [CHR 0x27]
                                @ '' is not a closure (type ''
                                @ type_decimal transformer_closure @ '').'')) s
                      else on_value (l0_apply host rec transformer_closure args_expr env s)
                             (\<lambda>s1. Return (None, leave s1))
                             (\<lambda>expanded_code s1. rec (Call_eval expanded_code env) (leave s1)))
                 | None \<Rightarrow>
                     (case l0_env_lookup s env op_sym of
                        None \<Rightarrow>
                          (if l0_parser_error_status s = L0_PARSE_OK
                           then eval_error
                                  (take 99 (''Unbound function/variable in operator position: ''
                                              @ op_sym)) s
                           else Return (None, leave s))
                      | Some op_value \<Rightarrow>
                          (if \<not> l0_is_primitive (Some op_value)
                                \<and> \<not> l0_is_closure (Some op_value)
                           then eval_error
                                  (take 149 (''Attempted to apply non-function value (type ''
                                     @ type_decimal op_value @ '') obtained from symbol ''
                                     @ [CHR 0x27] @ op_sym @ [CHR 0x27] @ ''.'')) s
                           else on_value (l0_eval_list rec args_expr env s)
                                  (\<lambda>s1. Return (None, leave s1))
                                  (\<lambda>evaluated_args s1.
                                     and_then
                                       (l0_apply host rec op_value evaluated_args env s1)
                                       leave))))))"

text \<open>An application whose operator is not a symbol: the operator is evaluated first.\<close>

definition call_expression ::
  "'d l0_host \<Rightarrow> 'd l0_rec \<Rightarrow> 'd L0_Value \<Rightarrow> 'd L0_Value \<Rightarrow> nat \<Rightarrow> 'd L0_World
     \<Rightarrow> 'd l0_result" where
  "call_expression host rec op_expr args_expr env s =
     on_value (rec (Call_eval op_expr env) s)
       (\<lambda>s1. Return (None, leave s1))
       (\<lambda>evaluated_op s1.
          if \<not> l0_is_primitive (Some evaluated_op) \<and> \<not> l0_is_closure (Some evaluated_op)
          then eval_error
                 (take 149 (''Attempted to apply non-function value (type ''
                    @ type_decimal evaluated_op
                    @ '') obtained from evaluating operator expression.'')) s1
          else on_value (l0_eval_list rec args_expr env s1)
                 (\<lambda>s2. Return (None, leave s2))
                 (\<lambda>evaluated_args s2.
                    and_then (l0_apply host rec evaluated_op evaluated_args env s2) leave))"

subsection \<open>\<^verbatim>\<open>l0_eval\<close>\<close>

definition l0_eval_body ::
  "'d l0_host \<Rightarrow> 'd l0_rec \<Rightarrow> 'd L0_Value \<Rightarrow> nat \<Rightarrow> 'd L0_World \<Rightarrow> 'd l0_result" where
  "l0_eval_body host rec expr env s0 =
     (let s = s0\<lparr>eval_depth := eval_depth s0 + 1\<rparr> in
      if eval_depth s > MAX_EVAL_DEPTH
      then eval_error ''Stack overflow suspected in l0_eval.'' s
      else
        (case expr of
           L0_NIL \<Rightarrow> Return (Some expr, leave s)
         | L0_Boolean b \<Rightarrow> Return (Some expr, leave s)
         | L0_Integer i \<Rightarrow> Return (Some expr, leave s)
         | L0_Float f \<Rightarrow> Return (Some expr, leave s)
         | L0_String t \<Rightarrow> Return (Some expr, leave s)
         | L0_Symbol name \<Rightarrow>
             (case l0_env_lookup s env name of
                None \<Rightarrow> eval_error (take 99 (''Unbound variable: '' @ name)) s
              | Some v \<Rightarrow> Return (Some v, leave s))
         | L0_Pair op_expr args_expr \<Rightarrow>
             (case op_expr of
                L0_Symbol op_sym \<Rightarrow>
                  (case get_special_form_type op_sym of
                     SF_QUOTE \<Rightarrow> sf_quote args_expr s
                   | SF_QUASIQUOTE \<Rightarrow> sf_quasiquote rec args_expr env s
                   | SF_IF \<Rightarrow> sf_if rec args_expr env s
                   | SF_LAMBDA \<Rightarrow> sf_lambda args_expr env s
                   | SF_DEFINE \<Rightarrow> sf_define rec args_expr env s
                   | SF_SET \<Rightarrow> sf_set rec args_expr env s
                   | SF_LET \<Rightarrow> sf_let rec args_expr env s
                   | SF_DEFMACRO \<Rightarrow> sf_defmacro args_expr env s
                   | SF_AND \<Rightarrow> sf_and rec args_expr env s
                   | SF_OR \<Rightarrow> sf_or rec args_expr env s
                   | SF_BEGIN \<Rightarrow> l0_eval_sequence rec args_expr env (leave s)
                   | SF_COND \<Rightarrow> cond_loop rec args_expr env s
                   | SF_UNQUOTE \<Rightarrow> sf_unquote op_sym s
                   | SF_NONE \<Rightarrow> sf_none host rec op_sym args_expr env s)
              | _ \<Rightarrow> call_expression host rec op_expr args_expr env s)
         | _ \<Rightarrow> eval_error (take 99 (''Cannot evaluate value of type ''
                                       @ type_decimal expr @ ''.'')) s))"

subsection \<open>\<^verbatim>\<open>l0_expand_quasiquote\<close>\<close>

text \<open>The general pair handling: expand the car, then the cdr, and pair the results.\<close>

definition expand_pair ::
  "'d l0_rec \<Rightarrow> 'd L0_Value \<Rightarrow> 'd L0_Value \<Rightarrow> nat \<Rightarrow> int \<Rightarrow> 'd L0_World \<Rightarrow> 'd l0_result" where
  "expand_pair rec car_t cdr_t env depth s =
     on_value (rec (Call_expand_quasiquote car_t env depth) s)
       (\<lambda>s1. Return (None, s1))
       (\<lambda>expanded_car s1.
          on_value (rec (Call_expand_quasiquote cdr_t env depth) s1)
            (\<lambda>s2. Return (None, s2))
            (\<lambda>expanded_cdr s2. Return (Some (L0_Pair expanded_car expanded_cdr), s2)))"

definition l0_expand_quasiquote_body ::
  "'d l0_rec \<Rightarrow> 'd L0_Value \<Rightarrow> nat \<Rightarrow> int \<Rightarrow> 'd L0_World \<Rightarrow> 'd l0_result" where
  "l0_expand_quasiquote_body rec template env depth s =
     (case template of
        L0_Pair op rest \<Rightarrow>
          (case op of
             L0_Symbol op_sym \<Rightarrow>
               (if op_sym = ''unquote''
                then (if depth = 1
                      then (case rest of
                              L0_Pair expr_to_eval L0_NIL \<Rightarrow> rec (Call_eval expr_to_eval env) s
                            | _ \<Rightarrow> Return (None, runtime_error
                                     (CHR 0x27 # ''unquote' requires exactly one argument.'') s))
                      else expand_pair rec op rest env (depth - 1) s)
                else if op_sym = ''unquote-splicing''
                then (if depth = 1
                      then Return (None, runtime_error
                             ''TODO: 'unquote-splicing' is not yet implemented.'' s)
                      else expand_pair rec op rest env (depth - 1) s)
                else if op_sym = ''quasiquote''
                then expand_pair rec op rest env (depth + 1) s
                else expand_pair rec op rest env depth s)
           | _ \<Rightarrow> expand_pair rec op rest env depth s)
      | _ \<Rightarrow> Return (Some template, s))"

subsection \<open>\<^verbatim>\<open>l0_macroexpand\<close>\<close>

fun find_transformer_loop ::
  "string \<Rightarrow> 'd L0_Value \<Rightarrow> 'd L0_World \<Rightarrow> 'd L0_Value option \<times> 'd L0_World" where
  "find_transformer_loop sym_name (L0_Pair entry_pair rest) s =
     (case entry_pair of
        L0_Pair macro_name transformer \<Rightarrow>
          (if macro_name = L0_Symbol sym_name
           then (if \<not> l0_is_closure (Some transformer)
                 then (None, runtime_error
                         (take 149 (''Internal error: Macro transformer for ''
                            @ [CHR 0x27] @ sym_name @ [CHR 0x27]
                            @ '' is not a closure (type '' @ type_decimal transformer
                            @ '').'')) s)
                 else (Some transformer, s))
           else find_transformer_loop sym_name rest s)
      | _ \<Rightarrow> (None, runtime_error ''Runtime error: Malformed entry in '*macro-table*'.'' s))"
| "find_transformer_loop sym_name L0_NIL s = (None, s)"
| "find_transformer_loop sym_name current_entry_node s =
     (None, runtime_error ''Runtime error: '*macro-table*' is not a proper list.'' s)"

definition find_macro_transformer ::
  "'d L0_Value \<Rightarrow> nat \<Rightarrow> 'd L0_World \<Rightarrow> 'd L0_Value option \<times> 'd L0_World" where
  "find_macro_transformer symbol env s =
     (case symbol of
        L0_Symbol sym_name \<Rightarrow>
          (case l0_env_lookup s env ''*macro-table*'' of
             None \<Rightarrow> (None, s)
           | Some current_macro_table \<Rightarrow>
               (if \<not> l0_is_list (Some current_macro_table)
                then (None, runtime_error ''Runtime error: '*macro-table*' is not a list.'' s)
                else find_transformer_loop sym_name current_macro_table s))
      | _ \<Rightarrow> (None, s))"

definition leave_macroexpand :: "'d L0_World \<Rightarrow> 'd L0_World" where
  "leave_macroexpand s = s\<lparr>macroexpand_depth := macroexpand_depth s - 1\<rparr>"

definition l0_macroexpand_body ::
  "'d l0_host \<Rightarrow> 'd l0_rec \<Rightarrow> 'd L0_Value \<Rightarrow> nat \<Rightarrow> 'd L0_World \<Rightarrow> 'd l0_result" where
  "l0_macroexpand_body host rec expr env s0 =
     (let s = s0\<lparr>macroexpand_depth := macroexpand_depth s0 + 1\<rparr> in
      if macroexpand_depth s > MAX_MACROEXPAND_DEPTH
      then Return (None, leave_macroexpand (runtime_error
             ''Stack overflow suspected in macro expansion.'' s))
      else
        (case expr of
           L0_Pair op args \<Rightarrow>
             (if op = L0_Symbol ''quote'' then Return (Some expr, leave_macroexpand s)
              else (case find_macro_transformer op env s of
                      (Some transformer, s1) \<Rightarrow>
                        on_value (l0_apply host rec transformer args env s1)
                          (\<lambda>s2. Return (None, leave_macroexpand s2))
                          (\<lambda>expanded_code s2.
                             rec (Call_macroexpand expanded_code env) (leave_macroexpand s2))
                    | (None, s1) \<Rightarrow>
                        (if l0_parser_error_status s1 \<noteq> L0_PARSE_OK
                         then Return (None, leave_macroexpand s1)
                         else on_value (rec (Call_macroexpand op env) s1)
                                (\<lambda>s2. Return (None, leave_macroexpand s2))
                                (\<lambda>expanded_car s2.
                                   on_value (rec (Call_macroexpand args env) s2)
                                     (\<lambda>s3. Return (None, leave_macroexpand s3))
                                     (\<lambda>expanded_cdr s3.
                                        Return (Some (L0_Pair expanded_car expanded_cdr),
                                                leave_macroexpand s3))))))
         | _ \<Rightarrow> Return (Some expr, leave_macroexpand s)))"

subsection \<open>Tying the knot\<close>

definition l0_step :: "'d l0_host \<Rightarrow> 'd l0_rec \<Rightarrow> 'd l0_rec" where
  "l0_step host rec c s =
     (case c of
        Call_eval expr env \<Rightarrow> l0_eval_body host rec expr env s
      | Call_apply func args env \<Rightarrow> l0_apply host rec func args env s
      | Call_expand_quasiquote template env depth \<Rightarrow>
          l0_expand_quasiquote_body rec template env depth s
      | Call_macroexpand expr env \<Rightarrow> l0_macroexpand_body host rec expr env s)"

primrec l0_run :: "nat \<Rightarrow> 'd l0_host \<Rightarrow> 'd l0_rec" where
  "l0_run 0 host = (\<lambda>c s. Timeout)"
| "l0_run (Suc n) host = l0_step host (l0_run n host)"

definition l0_eval ::
  "nat \<Rightarrow> 'd l0_host \<Rightarrow> 'd L0_Value \<Rightarrow> nat \<Rightarrow> 'd L0_World \<Rightarrow> 'd l0_result" where
  "l0_eval n host expr env s = l0_run n host (Call_eval expr env) s"

definition l0_expand_quasiquote ::
  "nat \<Rightarrow> 'd l0_host \<Rightarrow> 'd L0_Value \<Rightarrow> nat \<Rightarrow> int \<Rightarrow> 'd L0_World \<Rightarrow> 'd l0_result" where
  "l0_expand_quasiquote n host template env depth s =
     l0_run n host (Call_expand_quasiquote template env depth) s"


subsection \<open>A host and a global environment to run the definitions on\<close>

text \<open>
  The host functions of the arithmetic and comparison primitives, under the names
  \<^verbatim>\<open>l0_register_primitives\<close> gives them; a primitive of any other name stands for a host
  function that is not modelled.  The global environment holds \<^verbatim>\<open>*macro-table*\<close>, defined
  first and bound to nil, and these seven primitives in the order of their registration.
\<close>

definition arithmetic_host :: "'d double_ops \<Rightarrow> 'd l0_host" where
  "arithmetic_host ops prim_name rec args env s =
     (if prim_name = ''+'' then prim_add ops args s
      else if prim_name = ''-'' then prim_subtract ops args s
      else if prim_name = ''*'' then prim_multiply ops args s
      else if prim_name = ''/'' then prim_divide ops args s
      else if prim_name = ''='' then prim_equal ops args s
      else if prim_name = ''<'' then prim_less_than ops args s
      else if prim_name = ''>'' then prim_greater_than ops args s
      else Crash)"

definition global_frame :: "(string \<times> 'd L0_Value) list" where
  "global_frame =
     [(''>'', L0_Primitive ''>''), (''<'', L0_Primitive ''<''), (''='', L0_Primitive ''=''),
      (''/'', L0_Primitive ''/''), (''*'', L0_Primitive ''*''), (''-'', L0_Primitive ''-''),
      (''+'', L0_Primitive ''+''), (''*macro-table*'', L0_NIL)]"

definition world_of :: "(string \<times> 'd L0_Value) list \<Rightarrow> 'd L0_World" where
  "world_of fr =
     \<lparr> l0_parser_error_status = L0_PARSE_OK, l0_parser_error_message = None,
       l0_parser_error_line = 1, l0_parser_error_col = 1,
       envs = [\<lparr>frame = fr, outer = None\<rparr>],
       eval_depth = 0, eval_list_depth = 0, macroexpand_depth = 0 \<rparr>"

definition global_world :: "'d L0_World" where
  "global_world = world_of global_frame"

subsection \<open>Notions used to state properties of the evaluator\<close>

text \<open>
  What the loop of \<^verbatim>\<open>cond\<close> does with clauses it does not take: each is a pair whose test is
  not \<^verbatim>\<open>else\<close> and evaluates, without failure, to \<^verbatim>\<open>#f\<close>.  The result is the state after
  the last of these tests, or \<open>None\<close> when some clause is not passed over in this way.
\<close>

fun cond_falls_through ::
  "'d l0_rec \<Rightarrow> nat \<Rightarrow> 'd L0_Value list \<Rightarrow> 'd L0_World \<Rightarrow> 'd L0_World option" where
  "cond_falls_through rec env [] s = Some s"
| "cond_falls_through rec env (clause # clauses) s =
     (case clause of
        L0_Pair test_expr body_exprs \<Rightarrow>
          (if test_expr = L0_Symbol ''else'' then None
           else (case rec (Call_eval test_expr env) s of
                   Return (Some (L0_Boolean False), s1) \<Rightarrow>
                     (if l0_parser_error_status s1 = L0_PARSE_OK
                      then cond_falls_through rec env clauses s1 else None)
                 | _ \<Rightarrow> None))
      | _ \<Rightarrow> None)"

text \<open>The frame \<^verbatim>\<open>l0_apply\<close> builds: the parameters defined one after the other.\<close>

fun bind_all :: "nat \<Rightarrow> (string \<times> 'd L0_Value) list \<Rightarrow> 'd L0_World \<Rightarrow> 'd L0_World" where
  "bind_all call_env [] s = s"
| "bind_all call_env ((name, v) # rest) s = bind_all call_env rest (l0_env_define call_env name v s)"

text \<open>
  The frame these definitions leave, starting from the frame \<open>fr\<close>: as in
  \<^verbatim>\<open>l0_env_define\<close>, a name the frame holds already gets the new value where it stands,
  and any other name is put in front with its value.
\<close>

fun bind_frame ::
  "(string \<times> 'd L0_Value) list \<Rightarrow> (string \<times> 'd L0_Value) list
     \<Rightarrow> (string \<times> 'd L0_Value) list" where
  "bind_frame [] fr = fr"
| "bind_frame ((name, v) # rest) fr =
     bind_frame rest (case frame_assign name v fr of Some f \<Rightarrow> f | None \<Rightarrow> (name, v) # fr)"



text \<open>Writing a runtime error to the slot, or leaving the state alone.\<close>

definition set_error :: "string option \<Rightarrow> 'd L0_World \<Rightarrow> 'd L0_World" where
  "set_error e s = (case e of None \<Rightarrow> s | Some msg \<Rightarrow> runtime_error msg s)"



section \<open>The parser (l0\_parser.c)\<close>

subsection \<open>Characters and the C library\<close>


definition isspace :: "char \<Rightarrow> bool" where
  "isspace c = (c = CHR '' '' \<or> c = CHR 0x09 \<or> c = CHR 0x0A \<or> c = CHR 0x0B
                \<or> c = CHR 0x0C \<or> c = CHR 0x0D)"








subsection \<open>Parser state and error slot\<close>

text \<open>
  \<^verbatim>\<open>current_pos\<close> points into the input string: here it is the rest of the input, from
  the character pointed at up to the terminating NUL, which is left out, so that the
  empty list is the end of the input.  The stream and the file name play no part in the
  parsing of a string.  The position counters are \<^verbatim>\<open>unsigned long\<close>; they count characters
  of an input that is in memory and cannot wrap around, so they are natural numbers here.
\<close>

record ParserState =
  current_pos :: string
  line :: nat
  col :: nat



subsection \<open>\<^verbatim>\<open>skip_whitespace_and_comments\<close>\<close>

text \<open>The two inner loops: over white space, and from \<^verbatim>\<open>;\<close> to the end of the line.\<close>

fun skip_whitespace :: "string \<Rightarrow> nat \<Rightarrow> nat \<Rightarrow> ParserState" where
  "skip_whitespace [] l c = \<lparr>current_pos = [], line = l, col = c\<rparr>"
| "skip_whitespace (x # xs) l c =
     (if isspace x
      then (if x = CHR 0x0A then skip_whitespace xs (l + 1) 1
            else skip_whitespace xs l (c + 1))
      else \<lparr>current_pos = x # xs, line = l, col = c\<rparr>)"

fun skip_comment :: "string \<Rightarrow> nat \<Rightarrow> nat \<Rightarrow> ParserState" where
  "skip_comment [] l c = \<lparr>current_pos = [], line = l, col = c\<rparr>"
| "skip_comment (x # xs) l c =
     (if x \<noteq> CHR 0x0A then skip_comment xs l (c + 1)
      else \<lparr>current_pos = x # xs, line = l, col = c\<rparr>)"

lemma skip_whitespace_length:
  "length (current_pos (skip_whitespace xs l c)) \<le> length xs"
  by (induction xs l c rule: skip_whitespace.induct) auto

lemma skip_comment_length:
  "length (current_pos (skip_comment xs l c)) \<le> length xs"
  by (induction xs l c rule: skip_comment.induct) auto

lemma skip_comment_shorter:
  "x \<noteq> CHR 0x0A \<Longrightarrow> length (current_pos (skip_comment (x # xs) l c)) < Suc (length xs)"
  using skip_comment_length[of xs l "c + 1"] by simp

function skip_whitespace_and_comments :: "ParserState \<Rightarrow> ParserState" where
  "skip_whitespace_and_comments state =
     (let s1 = skip_whitespace (current_pos state) (line state) (col state) in
      case current_pos s1 of
        [] \<Rightarrow> s1
      | c # rest \<Rightarrow>
          if c = CHR '';''
          then (let s2 = skip_comment (current_pos s1) (line s1) (col s1) in
                case current_pos s2 of
                  [] \<Rightarrow> s2
                | n # rest2 \<Rightarrow>
                    if n = CHR 0x0A then skip_whitespace_and_comments s2 else s2)
          else s1)"
  by pat_completeness auto

termination skip_whitespace_and_comments
proof (relation "measure (\<lambda>state. length (current_pos state))")
  show "wf (measure (\<lambda>state. length (current_pos state)))" by simp
next
  fix state :: ParserState and s1 c rest s2 n rest2
  assume s1: "s1 = skip_whitespace (current_pos state) (line state) (col state)"
    and c: "current_pos s1 = c # rest" "c = CHR '';''"
    and s2: "s2 = skip_comment (current_pos s1) (line s1) (col s1)"
  have "length (current_pos s2) < Suc (length rest)"
    unfolding s2 c(1) using c(2) by (intro skip_comment_shorter) simp
  also have "Suc (length rest) = length (current_pos s1)" using c(1) by simp
  also have "\<dots> \<le> length (current_pos state)" unfolding s1 by (rule skip_whitespace_length)
  finally show "(s2, state) \<in> measure (\<lambda>state. length (current_pos state))" by simp
qed

subsection \<open>Atoms and string literals\<close>





definition advance :: "nat \<Rightarrow> ParserState \<Rightarrow> ParserState" where
  "advance len state =
     state\<lparr>current_pos := drop len (current_pos state), col := col state + len\<rparr>"






subsection \<open>\<^verbatim>\<open>parse_sexpr\<close> and \<^verbatim>\<open>parse_list\<close>\<close>



subsection \<open>The entry points\<close>







subsection \<open>Notions used to state properties of the parser\<close>









section \<open>Properties of the arithmetic and comparison primitives\<close>

lemma is_number_cases: "is_number v \<longleftrightarrow> (\<exists>i. v = L0_Integer i) \<or> (\<exists>f. v = L0_Float f)"
  by (cases v) (simp_all add: is_number_def)

lemma is_integer_iff: "l0_is_integer (Some v) \<longleftrightarrow> (\<exists>i. v = L0_Integer i)"
  by (cases v) simp_all

lemma is_float_iff: "l0_is_float (Some v) \<longleftrightarrow> (\<exists>f. v = L0_Float f)"
  by (cases v) simp_all

lemma integer_is_number: "l0_is_integer (Some v) \<Longrightarrow> is_number v"
  by (simp add: is_number_def)

lemma number_not_integer_is_float: "is_number v \<Longrightarrow> \<not> l0_is_integer (Some v) \<Longrightarrow> l0_is_float (Some v)"
  by (simp add: is_number_def)

lemma get_numeric_number:
  "is_number v \<Longrightarrow> get_numeric_as_double ops v n s = (Some (as_double ops v), s)"
  by (auto simp: is_number_cases get_numeric_as_double_def)

lemma get_numeric_other:
  "\<not> is_number v \<Longrightarrow> \<exists>msg. get_numeric_as_double ops v n s = (None, runtime_error msg s)"
  by (cases v) (auto simp: is_number_def get_numeric_as_double_def)

lemma list_value_is_list: "is_list_chain (list_value vs)"
  by (induction vs) simp_all

subsection \<open>Addition\<close>

lemma add_loop_ints:
  "\<forall>v\<in>set vs. l0_is_integer (Some v) \<Longrightarrow>
   \<exists>i. prim_add_loop ops (list_value vs) a f False s = (Some (L0_Integer i), s)"
  by (induction vs arbitrary: a f) (auto simp: is_integer_iff)

lemma add_loop_seen:
  "\<forall>v\<in>set vs. is_number v \<Longrightarrow>
   \<exists>f'. prim_add_loop ops (list_value vs) a f True s = (Some (L0_Float f'), s)"
  by (induction vs arbitrary: a f) (auto simp: is_number_cases)

lemma add_loop_some_float:
  "\<forall>v\<in>set vs. is_number v \<Longrightarrow> \<exists>v\<in>set vs. l0_is_float (Some v) \<Longrightarrow>
   \<exists>f'. prim_add_loop ops (list_value vs) a f hf s = (Some (L0_Float f'), s)"
proof (induction vs arbitrary: a f hf)
  case Nil then show ?case by simp
next
  case (Cons v vs)
  show ?case
  proof (cases v)
    case (L0_Float x)
    from Cons.prems have "\<forall>v\<in>set vs. is_number v" by simp
    then have "\<exists>f'. prim_add_loop ops (list_value vs) a
        (d_add ops (if hf then f else d_of_long ops a) x) True s = (Some (L0_Float f'), s)"
      by (rule add_loop_seen)
    with L0_Float show ?thesis by simp
  next
    case (L0_Integer i)
    with Cons.prems have "\<exists>v\<in>set vs. l0_is_float (Some v)" by auto
    with Cons L0_Integer show ?thesis by simp
  qed (use Cons.prems in \<open>auto simp: is_number_def\<close>)
qed

lemma add_loop_non_number:
  "\<exists>v\<in>set vs. \<not> is_number v \<Longrightarrow>
   \<exists>msg. prim_add_loop ops (list_value vs) a f hf s = (None, runtime_error msg s)"
proof (induction vs arbitrary: a f hf)
  case Nil then show ?case by simp
next
  case (Cons v vs)
  show ?case
  proof (cases "is_number v")
    case True
    with Cons.prems have "\<exists>v\<in>set vs. \<not> is_number v" by auto
    from Cons.IH[OF this] True show ?thesis by (auto simp: is_number_cases)
  next
    case False
    then show ?thesis by (cases v) (auto simp: is_number_def)
  qed
qed

subsection \<open>Multiplication\<close>

lemma mul_loop_ints:
  "\<forall>v\<in>set vs. l0_is_integer (Some v) \<Longrightarrow>
   \<exists>i. prim_multiply_loop ops (list_value vs) a f False s = (Some (L0_Integer i), s)"
  by (induction vs arbitrary: a f) (auto simp: is_integer_iff)

lemma mul_loop_seen:
  "\<forall>v\<in>set vs. is_number v \<Longrightarrow>
   \<exists>f'. prim_multiply_loop ops (list_value vs) a f True s = (Some (L0_Float f'), s)"
  by (induction vs arbitrary: a f) (auto simp: is_number_cases)

lemma mul_loop_some_float:
  "\<forall>v\<in>set vs. is_number v \<Longrightarrow> \<exists>v\<in>set vs. l0_is_float (Some v) \<Longrightarrow>
   \<exists>f'. prim_multiply_loop ops (list_value vs) a f hf s = (Some (L0_Float f'), s)"
proof (induction vs arbitrary: a f hf)
  case Nil then show ?case by simp
next
  case (Cons v vs)
  show ?case
  proof (cases v)
    case (L0_Float x)
    from Cons.prems have "\<forall>v\<in>set vs. is_number v" by simp
    then have "\<exists>f'. prim_multiply_loop ops (list_value vs) a
        (d_mul ops (if hf then f else d_of_long ops a) x) True s = (Some (L0_Float f'), s)"
      by (rule mul_loop_seen)
    with L0_Float show ?thesis by simp
  next
    case (L0_Integer i)
    with Cons.prems have "\<exists>v\<in>set vs. l0_is_float (Some v)" by auto
    with Cons L0_Integer show ?thesis by simp
  qed (use Cons.prems in \<open>auto simp: is_number_def\<close>)
qed

lemma mul_loop_non_number:
  "\<exists>v\<in>set vs. \<not> is_number v \<Longrightarrow>
   \<exists>msg. prim_multiply_loop ops (list_value vs) a f hf s = (None, runtime_error msg s)"
proof (induction vs arbitrary: a f hf)
  case Nil then show ?case by simp
next
  case (Cons v vs)
  show ?case
  proof (cases "is_number v")
    case True
    with Cons.prems have "\<exists>v\<in>set vs. \<not> is_number v" by auto
    from Cons.IH[OF this] True show ?thesis by (auto simp: is_number_cases)
  next
    case False
    then show ?thesis by (cases v) (auto simp: is_number_def)
  qed
qed

subsection \<open>Subtraction\<close>

lemma sub_loop_ints:
  "\<forall>v\<in>set vs. l0_is_integer (Some v) \<Longrightarrow>
   \<exists>i. prim_subtract_loop ops (list_value vs) a f False s = (Some (L0_Integer i), s)"
  by (induction vs arbitrary: a f)
     (auto simp: is_integer_iff get_numeric_as_double_def)

lemma sub_loop_seen:
  "\<forall>v\<in>set vs. is_number v \<Longrightarrow>
   \<exists>f'. prim_subtract_loop ops (list_value vs) a f True s = (Some (L0_Float f'), s)"
  by (induction vs arbitrary: a f) (auto simp: get_numeric_number)

lemma sub_loop_some_float:
  "\<forall>v\<in>set vs. is_number v \<Longrightarrow> \<exists>v\<in>set vs. l0_is_float (Some v) \<Longrightarrow>
   \<exists>f'. prim_subtract_loop ops (list_value vs) a f hf s = (Some (L0_Float f'), s)"
proof (induction vs arbitrary: a f hf)
  case Nil then show ?case by simp
next
  case (Cons v vs)
  from Cons.prems have nums: "\<forall>v\<in>set vs. is_number v" and nv: "is_number v" by simp_all
  show ?case
  proof (cases "hf \<or> l0_is_float (Some v)")
    case True
    have "\<exists>f'. prim_subtract_loop ops (list_value vs) a
        (d_sub ops (if l0_is_float (Some v) \<and> \<not> hf then d_of_long ops a else f)
           (as_double ops v)) True s = (Some (L0_Float f'), s)"
      using nums by (rule sub_loop_seen)
    with True nv show ?thesis by (auto simp: get_numeric_number Let_def)
  next
    case False
    with Cons.prems have "\<exists>v\<in>set vs. l0_is_float (Some v)" by auto
    from Cons.IH[OF nums this] False nv show ?thesis
      by (auto simp: get_numeric_number Let_def)
  qed
qed

lemma sub_loop_non_number:
  "\<exists>v\<in>set vs. \<not> is_number v \<Longrightarrow>
   \<exists>msg. prim_subtract_loop ops (list_value vs) a f hf s = (None, runtime_error msg s)"
proof (induction vs arbitrary: a f hf)
  case Nil then show ?case by simp
next
  case (Cons v vs)
  show ?case
  proof (cases "is_number v")
    case True
    with Cons.prems have "\<exists>v\<in>set vs. \<not> is_number v" by auto
    from Cons.IH[OF this] True show ?thesis by (auto simp: get_numeric_number Let_def)
  next
    case False
    from get_numeric_other[OF this] obtain msg where
      "get_numeric_as_double ops v ''-'' s = (None, runtime_error msg s)" by blast
    then show ?thesis by auto
  qed
qed

subsection \<open>Division\<close>

lemma div_loop_numbers:
  "\<forall>v\<in>set vs. is_number v \<Longrightarrow>
   (if \<exists>y\<in>set vs. d_eq ops (as_double ops y) (d_zero ops)
    then \<exists>msg. prim_divide_loop ops (list_value vs) r s = (None, runtime_error msg s)
    else \<exists>f. prim_divide_loop ops (list_value vs) r s = (Some (L0_Float f), s))"
proof (induction vs arbitrary: r)
  case Nil then show ?case by simp
next
  case (Cons v vs)
  from Cons.prems have nums: "\<forall>v\<in>set vs. is_number v" and nv: "is_number v" by simp_all
  show ?case
  proof (cases "d_eq ops (as_double ops v) (d_zero ops)")
    case True
    with nv show ?thesis by (auto simp: get_numeric_number)
  next
    case False
    from Cons.IH[OF nums, of "d_div ops r (as_double ops v)"] False nv
    show ?thesis by (simp add: get_numeric_number)
  qed
qed

lemma div_loop_non_number:
  "\<exists>v\<in>set vs. \<not> is_number v \<Longrightarrow>
   \<exists>msg. prim_divide_loop ops (list_value vs) r s = (None, runtime_error msg s)"
proof (induction vs arbitrary: r)
  case Nil then show ?case by simp
next
  case (Cons v vs)
  show ?case
  proof (cases "is_number v")
    case True
    with Cons.prems have "\<exists>v\<in>set vs. \<not> is_number v" by auto
    from Cons.IH[OF this] True show ?thesis by (auto simp: get_numeric_number)
  next
    case False
    from get_numeric_other[OF this] obtain msg where
      "get_numeric_as_double ops v ''/'' s = (None, runtime_error msg s)" by blast
    then show ?thesis by auto
  qed
qed

subsection \<open>The four arithmetic primitives on whole argument lists\<close>


lemma prim_add_numbers:
  assumes "\<forall>v\<in>set vs. is_number v"
  shows "if \<forall>v\<in>set vs. l0_is_integer (Some v)
         then \<exists>i. prim_add ops (list_value vs) s = Return (Some (L0_Integer i), s)
         else \<exists>f. prim_add ops (list_value vs) s = Return (Some (L0_Float f), s)"
proof (cases "\<forall>v\<in>set vs. l0_is_integer (Some v)")
  case True
  from add_loop_ints[OF this] True show ?thesis by (simp add: prim_add_def)
next
  case False
  with assms have "\<exists>v\<in>set vs. l0_is_float (Some v)"
    by (meson number_not_integer_is_float)
  from add_loop_some_float[OF assms this, of ops 0 "d_zero ops" False s] False
  show ?thesis by (auto simp: prim_add_def)
qed

lemma prim_multiply_numbers:
  assumes "\<forall>v\<in>set vs. is_number v"
  shows "if \<forall>v\<in>set vs. l0_is_integer (Some v)
         then \<exists>i. prim_multiply ops (list_value vs) s = Return (Some (L0_Integer i), s)
         else \<exists>f. prim_multiply ops (list_value vs) s = Return (Some (L0_Float f), s)"
proof (cases "\<forall>v\<in>set vs. l0_is_integer (Some v)")
  case True
  from mul_loop_ints[OF this] True show ?thesis by (simp add: prim_multiply_def)
next
  case False
  with assms have "\<exists>v\<in>set vs. l0_is_float (Some v)"
    by (meson number_not_integer_is_float)
  from mul_loop_some_float[OF assms this, of ops 1 "d_one ops" False s] False
  show ?thesis by (auto simp: prim_multiply_def)
qed

lemma list_value_nil_iff: "l0_is_nil (Some (list_value vs)) \<longleftrightarrow> vs = []"
  by (cases vs) simp_all

lemma prim_subtract_numbers:
  assumes "\<forall>v\<in>set vs. is_number v" and "vs \<noteq> []"
  shows "if \<forall>v\<in>set vs. l0_is_integer (Some v)
         then \<exists>i. prim_subtract ops (list_value vs) s = Return (Some (L0_Integer i), s)
         else \<exists>f. prim_subtract ops (list_value vs) s = Return (Some (L0_Float f), s)"
proof -
  from assms(2) obtain v rest where vs: "vs = v # rest" by (cases vs) auto
  with assms(1) have nv: "is_number v" and nrest: "\<forall>v\<in>set rest. is_number v" by simp_all
  show ?thesis
  proof (cases "\<forall>v\<in>set vs. l0_is_integer (Some v)")
    case True
    with vs have iv: "l0_is_integer (Some v)" and "\<forall>v\<in>set rest. l0_is_integer (Some v)"
      by simp_all
    from sub_loop_ints[OF this(2)] iv True nv show ?thesis
      by (auto simp: vs prim_subtract_def get_numeric_number list_value_nil_iff is_integer_iff)
  next
    case False
    show ?thesis
    proof (cases "l0_is_float (Some v)")
      case True
      from sub_loop_seen[OF nrest] True False nv show ?thesis
        by (auto simp: vs prim_subtract_def get_numeric_number list_value_nil_iff)
    next
      case nf: False
      with nv have "l0_is_integer (Some v)" by (auto simp: is_number_def)
      with False vs nrest have "\<exists>v\<in>set rest. l0_is_float (Some v)"
        by (auto dest: number_not_integer_is_float)
      from sub_loop_some_float[OF nrest this] this nf False nv show ?thesis
        by (auto simp: vs prim_subtract_def get_numeric_number list_value_nil_iff)
    qed
  qed
qed

lemma prim_divide_numbers:
  assumes "\<forall>v\<in>set vs. is_number v" and "vs \<noteq> []"
  shows "if \<exists>y\<in>set (divisors vs). d_eq ops (as_double ops y) (d_zero ops)
         then \<exists>msg. prim_divide ops (list_value vs) s = Return (None, runtime_error msg s)
         else \<exists>f. prim_divide ops (list_value vs) s = Return (Some (L0_Float f), s)"
proof -
  from assms(2) obtain v rest where vs: "vs = v # rest" by (cases vs) auto
  with assms(1) have nv: "is_number v" and nrest: "\<forall>v\<in>set rest. is_number v" by simp_all
  show ?thesis
  proof (cases "rest = []")
    case True
    with nv show ?thesis
      by (auto simp: vs prim_divide_def get_numeric_number divisors_def)
  next
    case False
    then have d: "divisors vs = rest" by (cases rest) (simp_all add: vs divisors_def)
    have pd: "prim_divide ops (list_value vs) s
                = Return (prim_divide_loop ops (list_value rest) (as_double ops v) s)"
      using False nv by (simp add: vs prim_divide_def get_numeric_number list_value_nil_iff)
    from div_loop_numbers[OF nrest, of ops "as_double ops v" s] show ?thesis
      unfolding d pd by (simp split: if_splits)
  qed
qed

lemma prim_add_non_number:
  "\<exists>v\<in>set vs. \<not> is_number v \<Longrightarrow>
   \<exists>msg. prim_add ops (list_value vs) s = Return (None, runtime_error msg s)"
  using add_loop_non_number[of vs ops] by (simp add: prim_add_def)

lemma prim_multiply_non_number:
  "\<exists>v\<in>set vs. \<not> is_number v \<Longrightarrow>
   \<exists>msg. prim_multiply ops (list_value vs) s = Return (None, runtime_error msg s)"
  using mul_loop_non_number[of vs ops] by (simp add: prim_multiply_def)

lemma prim_subtract_non_number:
  assumes "\<exists>v\<in>set vs. \<not> is_number v"
  shows "\<exists>msg. prim_subtract ops (list_value vs) s = Return (None, runtime_error msg s)"
proof -
  from assms obtain v rest where vs: "vs = v # rest" by (cases vs) auto
  show ?thesis
  proof (cases "is_number v")
    case False
    from get_numeric_other[OF this] obtain msg where
      "get_numeric_as_double ops v ''-'' s = (None, runtime_error msg s)" by blast
    then show ?thesis by (auto simp: vs prim_subtract_def)
  next
    case True
    with assms vs have ex: "\<exists>v\<in>set rest. \<not> is_number v" by auto
    then have "rest \<noteq> []" by auto
    with sub_loop_non_number[OF ex] True show ?thesis
      by (auto simp: vs prim_subtract_def get_numeric_number list_value_nil_iff)
  qed
qed

lemma prim_divide_non_number:
  assumes "\<exists>v\<in>set vs. \<not> is_number v"
  shows "\<exists>msg. prim_divide ops (list_value vs) s = Return (None, runtime_error msg s)"
proof -
  from assms obtain v rest where vs: "vs = v # rest" by (cases vs) auto
  show ?thesis
  proof (cases "is_number v")
    case False
    from get_numeric_other[OF this] obtain msg where
      "get_numeric_as_double ops v ''/'' s = (None, runtime_error msg s)" by blast
    then show ?thesis by (auto simp: vs prim_divide_def)
  next
    case True
    with assms vs have ex: "\<exists>v\<in>set rest. \<not> is_number v" by auto
    then have "rest \<noteq> []" by auto
    with div_loop_non_number[OF ex] True show ?thesis
      by (auto simp: vs prim_divide_def get_numeric_number list_value_nil_iff)
  qed
qed



text \<open>
  C6 (amended).  On an argument list of numbers, \<^verbatim>\<open>+\<close> and \<^verbatim>\<open>*\<close> return an Integer when
  every argument is an Integer and a Float otherwise, and so does \<^verbatim>\<open>-\<close> when the list is
  not empty; \<^verbatim>\<open>/\<close> on a list that is not empty returns a Float, unless one of the
  arguments it divides by equals 0.0, which is a runtime error.  An argument that is not a
  number makes all four return null with the slot set to a runtime error.  With no
  argument at all \<^verbatim>\<open>+\<close> returns Integer 0 and \<^verbatim>\<open>*\<close> Integer 1, while \<^verbatim>\<open>-\<close> and \<^verbatim>\<open>/\<close>
  fail with a runtime error.
\<close>

theorem arithmetic_primitives_result_type:
  "((\<forall>v\<in>set vs. is_number v) \<longrightarrow>
      (if \<forall>v\<in>set vs. l0_is_integer (Some v)
       then (\<exists>i. prim_add ops (list_value vs) s = Return (Some (L0_Integer i), s)) \<and>
            (\<exists>i. prim_multiply ops (list_value vs) s = Return (Some (L0_Integer i), s)) \<and>
            (vs \<noteq> [] \<longrightarrow>
               (\<exists>i. prim_subtract ops (list_value vs) s = Return (Some (L0_Integer i), s)))
       else (\<exists>f. prim_add ops (list_value vs) s = Return (Some (L0_Float f), s)) \<and>
            (\<exists>f. prim_multiply ops (list_value vs) s = Return (Some (L0_Float f), s)) \<and>
            (\<exists>f. prim_subtract ops (list_value vs) s = Return (Some (L0_Float f), s))) \<and>
      (vs \<noteq> [] \<longrightarrow>
         (if \<exists>y\<in>set (divisors vs). d_eq ops (as_double ops y) (d_zero ops)
          then \<exists>msg. prim_divide ops (list_value vs) s = Return (None, runtime_error msg s)
          else \<exists>f. prim_divide ops (list_value vs) s = Return (Some (L0_Float f), s)))) \<and>
   ((\<exists>v\<in>set vs. \<not> is_number v) \<longrightarrow>
      (\<exists>msg. prim_add ops (list_value vs) s = Return (None, runtime_error msg s)) \<and>
      (\<exists>msg. prim_subtract ops (list_value vs) s = Return (None, runtime_error msg s)) \<and>
      (\<exists>msg. prim_multiply ops (list_value vs) s = Return (None, runtime_error msg s)) \<and>
      (\<exists>msg. prim_divide ops (list_value vs) s = Return (None, runtime_error msg s))) \<and>
   prim_add ops (list_value []) s = Return (Some (L0_Integer 0), s) \<and>
   prim_multiply ops (list_value []) s = Return (Some (L0_Integer 1), s) \<and>
   prim_subtract ops (list_value []) s =
     Return (None, runtime_error ''Primitive '-': Requires at least one argument.'' s) \<and>
   prim_divide ops (list_value []) s =
     Return (None, runtime_error ''Primitive '/': Requires at least one argument.'' s)"
proof (intro conjI impI)
  assume nums: "\<forall>v\<in>set vs. is_number v"
  show "if \<forall>v\<in>set vs. l0_is_integer (Some v)
       then (\<exists>i. prim_add ops (list_value vs) s = Return (Some (L0_Integer i), s)) \<and>
            (\<exists>i. prim_multiply ops (list_value vs) s = Return (Some (L0_Integer i), s)) \<and>
            (vs \<noteq> [] \<longrightarrow>
               (\<exists>i. prim_subtract ops (list_value vs) s = Return (Some (L0_Integer i), s)))
       else (\<exists>f. prim_add ops (list_value vs) s = Return (Some (L0_Float f), s)) \<and>
            (\<exists>f. prim_multiply ops (list_value vs) s = Return (Some (L0_Float f), s)) \<and>
            (\<exists>f. prim_subtract ops (list_value vs) s = Return (Some (L0_Float f), s))"
  proof (cases "\<forall>v\<in>set vs. l0_is_integer (Some v)")
    case True
    with prim_add_numbers[OF nums, of ops s] prim_multiply_numbers[OF nums, of ops s]
         prim_subtract_numbers[OF nums, of ops s]
    show ?thesis by simp
  next
    case False
    then have "vs \<noteq> []" by auto
    with False prim_add_numbers[OF nums, of ops s] prim_multiply_numbers[OF nums, of ops s]
         prim_subtract_numbers[OF nums, of ops s]
    show ?thesis by (simp del: ball_simps bex_simps not_all not_ex)
  qed
  assume "vs \<noteq> []"
  with nums show "if \<exists>y\<in>set (divisors vs). d_eq ops (as_double ops y) (d_zero ops)
          then \<exists>msg. prim_divide ops (list_value vs) s = Return (None, runtime_error msg s)
          else \<exists>f. prim_divide ops (list_value vs) s = Return (Some (L0_Float f), s)"
    by (rule prim_divide_numbers)
next
  assume ex: "\<exists>v\<in>set vs. \<not> is_number v"
  from ex show "\<exists>msg. prim_add ops (list_value vs) s = Return (None, runtime_error msg s)"
    by (rule prim_add_non_number)
  from ex show "\<exists>msg. prim_subtract ops (list_value vs) s = Return (None, runtime_error msg s)"
    by (rule prim_subtract_non_number)
  from ex show "\<exists>msg. prim_multiply ops (list_value vs) s = Return (None, runtime_error msg s)"
    by (rule prim_multiply_non_number)
  from ex show "\<exists>msg. prim_divide ops (list_value vs) s = Return (None, runtime_error msg s)"
    by (rule prim_divide_non_number)
qed (simp_all add: prim_add_def prim_multiply_def prim_subtract_def prim_divide_def)

theorem arithmetic_primitives_result_type_witness:
  "is_number (L0_Integer 7 :: rat L0_Value) \<and> is_number (L0_Integer 2 :: rat L0_Value)
   \<and> l0_is_integer (Some (L0_Integer 7 :: rat L0_Value))
   \<and> l0_is_integer (Some (L0_Integer 2 :: rat L0_Value))
   \<and> prim_add rat_ops (list_value [L0_Integer 7, L0_Integer 2]) clean_slot
        = Return (Some (L0_Integer 9), clean_slot)
   \<and> prim_subtract rat_ops (list_value [L0_Integer 7, L0_Integer 2]) clean_slot
        = Return (Some (L0_Integer 5), clean_slot)
   \<and> prim_divide rat_ops (list_value [L0_Integer 7, L0_Integer 2]) clean_slot
        = Return (Some (L0_Float (7 / 2)), clean_slot)
   \<and> is_number (L0_Float (1 / 2 :: rat)) \<and> \<not> l0_is_integer (Some (L0_Float (1 / 2 :: rat)))
   \<and> prim_multiply rat_ops (list_value [L0_Integer 7, L0_Float (1 / 2)]) clean_slot
        = Return (Some (L0_Float (7 / 2)), clean_slot)
   \<and> d_eq rat_ops (as_double rat_ops (L0_Integer 0)) (d_zero rat_ops)
   \<and> prim_divide rat_ops (list_value [L0_Integer 7, L0_Integer 0]) clean_slot
        = Return (None, runtime_error ''Primitive '/': Division by zero.'' clean_slot)
   \<and> \<not> is_number (L0_Boolean True :: rat L0_Value)
   \<and> prim_add rat_ops (list_value [L0_Integer 7, L0_Boolean True]) clean_slot
        = Return (None, runtime_error
            ''Primitive '+': Arguments must be numbers (integer or float).'' clean_slot)"
  using arithmetic_primitives_result_type
          [of "[L0_Integer 7, L0_Integer 2]" rat_ops clean_slot]
        arithmetic_primitives_result_type
          [of "[L0_Integer 7, L0_Float (1 / 2)]" rat_ops clean_slot]
        arithmetic_primitives_result_type
          [of "[L0_Integer 7, L0_Integer 0]" rat_ops clean_slot]
        arithmetic_primitives_result_type
          [of "[L0_Integer 7, L0_Boolean True]" rat_ops clean_slot]
  by (simp add: is_number_def prim_add_def prim_subtract_def prim_multiply_def
        prim_divide_def get_numeric_as_double_def rat_ops_def divisors_def)

text \<open>
  C6 as stated fails on the empty argument list, a list of numbers all of whose members
  are Integers: \<^verbatim>\<open>(-)\<close> returns no Integer and \<^verbatim>\<open>(/)\<close> no Float.
\<close>

theorem subtract_no_argument_counterexample:
  "prim_subtract rat_ops (list_value []) clean_slot
     = Return (None, runtime_error ''Primitive '-': Requires at least one argument.'' clean_slot)
   \<and> prim_divide rat_ops (list_value []) clean_slot
     = Return (None, runtime_error ''Primitive '/': Requires at least one argument.'' clean_slot)"
  by (simp add: prim_subtract_def prim_divide_def)



subsection \<open>Comparisons\<close>

lemma runtime_error_reset:
  "(runtime_error msg s)\<lparr>l0_parser_error_status := L0_PARSE_OK, l0_parser_error_message := None\<rparr>
     = s\<lparr>l0_parser_error_status := L0_PARSE_OK, l0_parser_error_message := None\<rparr>"
  by (simp add: runtime_error_def)

lemma get_numeric_reset:
  "get_numeric_as_double ops v n s = (r, s') \<Longrightarrow>
   s'\<lparr>l0_parser_error_status := L0_PARSE_OK, l0_parser_error_message := None\<rparr>
     = s\<lparr>l0_parser_error_status := L0_PARSE_OK, l0_parser_error_message := None\<rparr>"
  by (cases v) (auto simp: get_numeric_as_double_def runtime_error_def)

lemma get_numeric_None_iff:
  "get_numeric_as_double ops v n s = (r, s') \<Longrightarrow> (r = None) = (\<not> is_number v)"
  by (cases v) (auto simp: get_numeric_as_double_def is_number_def)

lemma equal_loop_first_not_number:
  assumes "xs \<noteq> []"
  shows "prim_equal_loop ops None (list_value xs) s
           = (Some (L0_Boolean False),
              s\<lparr>l0_parser_error_status := L0_PARSE_OK, l0_parser_error_message := None\<rparr>)"
proof -
  from assms obtain x rest where xs: "xs = x # rest" by (cases xs) auto
  obtain r s' where g: "get_numeric_as_double ops x ''='' s = (r, s')" by (cases "get_numeric_as_double ops x ''='' s")
  from get_numeric_reset[OF g] g show ?thesis by (simp add: xs)
qed

lemma equal_loop_reaches_non_number:
  assumes "is_number first" and "\<exists>v\<in>set (compared_rest ops first xs). \<not> is_number v"
  shows "prim_equal_loop ops (Some (as_double ops first)) (list_value xs) s
           = (Some (L0_Boolean False),
              s\<lparr>l0_parser_error_status := L0_PARSE_OK, l0_parser_error_message := None\<rparr>)"
  using assms(2)
proof (induction xs)
  case Nil then show ?case by simp
next
  case (Cons x xs)
  show ?case
  proof (cases "is_number x")
    case True
    with Cons.prems assms(1)
    have eq: "d_eq ops (as_double ops first) (as_double ops x)"
      and ex: "\<exists>v\<in>set (compared_rest ops first xs). \<not> is_number v"
      by (auto split: if_splits)
    from Cons.IH[OF ex] eq True show ?thesis by (simp add: get_numeric_number)
  next
    case False
    obtain r s' where g: "get_numeric_as_double ops x ''='' s = (r, s')"
      by (cases "get_numeric_as_double ops x ''='' s")
    from get_numeric_None_iff[OF g] False have "r = None" by simp
    with get_numeric_reset[OF g] g show ?thesis by simp
  qed
qed

lemma equal_loop_total:
  "\<exists>b. prim_equal_loop ops first_d (list_value xs) s = (Some (L0_Boolean b), s)
     \<or> prim_equal_loop ops first_d (list_value xs) s
         = (Some (L0_Boolean b),
            s\<lparr>l0_parser_error_status := L0_PARSE_OK, l0_parser_error_message := None\<rparr>)"
proof (induction xs)
  case Nil then show ?case by auto
next
  case (Cons x xs)
  obtain r s' where g: "get_numeric_as_double ops x ''='' s = (r, s')"
    by (cases "get_numeric_as_double ops x ''='' s")
  show ?case
  proof (cases "first_d = None \<or> r = None")
    case True
    with get_numeric_reset[OF g] g show ?thesis by (auto split: option.splits)
  next
    case False
    then obtain fd nd where fd: "first_d = Some fd" and nd: "r = Some nd" by auto
    from get_numeric_None_iff[OF g] nd have "is_number x" by simp
    with g have s': "s' = s" by (simp add: get_numeric_number)
    from Cons.IH g fd nd s' show ?thesis by auto
  qed
qed

lemma equal_loop_some_non_number:
  assumes "\<exists>v\<in>set xs. \<not> is_number v"
  shows "\<exists>s'. prim_equal_loop ops first_d (list_value xs) s = (Some (L0_Boolean False), s')"
  using assms
proof (induction xs)
  case Nil then show ?case by simp
next
  case (Cons x xs)
  obtain r s' where g: "get_numeric_as_double ops x ''='' s = (r, s')"
    by (cases "get_numeric_as_double ops x ''='' s")
  show ?case
  proof (cases "first_d = None \<or> r = None")
    case True
    with g show ?thesis by (auto split: option.splits)
  next
    case False
    then obtain fd nd where fd: "first_d = Some fd" and nd: "r = Some nd" by auto
    from get_numeric_None_iff[OF g] nd have nx: "is_number x" by simp
    with g have s': "s' = s" by (simp add: get_numeric_number)
    from nx Cons.prems have "\<exists>v\<in>set xs. \<not> is_number v" by auto
    from Cons.IH[OF this] g fd nd s' show ?thesis by auto
  qed
qed

text \<open>
  C10.  On every proper argument list \<^verbatim>\<open>prim_equal\<close> returns a Boolean, never null, and
  leaves the slot as it found it or reset.  When one of the arguments it compares is not a
  number, it returns Boolean false with the status reset to \<^verbatim>\<open>L0_PARSE_OK\<close> and the message
  to null.  With two or more arguments, one of which is not a number, the answer is false.
\<close>

theorem prim_equal_non_number_is_false:
  "(\<exists>b. prim_equal ops (list_value vs) s = Return (Some (L0_Boolean b), s)
        \<or> prim_equal ops (list_value vs) s
            = Return (Some (L0_Boolean b),
                s\<lparr>l0_parser_error_status := L0_PARSE_OK, l0_parser_error_message := None\<rparr>))
   \<and> ((\<exists>v\<in>set (compared_args ops vs). \<not> is_number v) \<longrightarrow>
        prim_equal ops (list_value vs) s
          = Return (Some (L0_Boolean False),
              s\<lparr>l0_parser_error_status := L0_PARSE_OK, l0_parser_error_message := None\<rparr>))
   \<and> (2 \<le> length vs \<and> (\<exists>v\<in>set vs. \<not> is_number v) \<longrightarrow>
        (\<exists>s'. prim_equal ops (list_value vs) s = Return (Some (L0_Boolean False), s')))"
proof (intro conjI impI)
  show "\<exists>b. prim_equal ops (list_value vs) s = Return (Some (L0_Boolean b), s)
        \<or> prim_equal ops (list_value vs) s
            = Return (Some (L0_Boolean b),
                s\<lparr>l0_parser_error_status := L0_PARSE_OK, l0_parser_error_message := None\<rparr>)"
  proof (cases vs)
    case Nil then show ?thesis by (auto simp: prim_equal_def)
  next
    case (Cons first xs)
    show ?thesis
    proof (cases "xs = []")
      case True with Cons show ?thesis by (auto simp: prim_equal_def)
    next
      case False
      obtain r s' where g: "get_numeric_as_double ops first ''='' s = (r, s')"
        by (cases "get_numeric_as_double ops first ''='' s")
      have pe: "prim_equal ops (list_value vs) s = Return (prim_equal_loop ops r (list_value xs) s')"
        using False g by (simp add: Cons prim_equal_def list_value_nil_iff)
      show ?thesis
      proof (cases "is_number first")
        case True
        with g have "s' = s" by (simp add: get_numeric_number)
        with equal_loop_total[of ops r xs s] pe show ?thesis by auto
      next
        case nn: False
        with get_numeric_None_iff[OF g] have "r = None" by simp
        with equal_loop_first_not_number[OF False, of ops s'] get_numeric_reset[OF g] pe
        show ?thesis by auto
      qed
    qed
  qed
next
  assume ex: "\<exists>v\<in>set (compared_args ops vs). \<not> is_number v"
  then obtain first x xs where vs: "vs = first # x # xs"
    by (cases vs; cases "tl vs") (auto simp: compared_args_def)
  obtain r s' where g: "get_numeric_as_double ops first ''='' s = (r, s')"
    by (cases "get_numeric_as_double ops first ''='' s")
  have pe: "prim_equal ops (list_value vs) s
              = Return (prim_equal_loop ops r (list_value (x # xs)) s')"
    using g by (simp add: vs prim_equal_def)
  show "prim_equal ops (list_value vs) s
          = Return (Some (L0_Boolean False),
              s\<lparr>l0_parser_error_status := L0_PARSE_OK, l0_parser_error_message := None\<rparr>)"
  proof (cases "is_number first")
    case True
    with g have r: "r = Some (as_double ops first)" and s': "s' = s"
      by (simp_all add: get_numeric_number)
    from ex True have "\<exists>v\<in>set (compared_rest ops first (x # xs)). \<not> is_number v"
      by (simp add: vs compared_args_def)
    from equal_loop_reaches_non_number[OF True this, of s] show ?thesis
      unfolding pe r s' by simp
  next
    case False
    with get_numeric_None_iff[OF g] have r: "r = None" by simp
    have "x # xs \<noteq> []" by simp
    from equal_loop_first_not_number[OF this, of ops s'] get_numeric_reset[OF g]
    show ?thesis unfolding pe r by simp
  qed
next
  assume "2 \<le> length vs \<and> (\<exists>v\<in>set vs. \<not> is_number v)"
  then have len: "2 \<le> length vs" and ex: "\<exists>v\<in>set vs. \<not> is_number v" by simp_all
  from len obtain first x xs where vs: "vs = first # x # xs"
    by (cases vs; cases "tl vs") auto
  obtain r s' where g: "get_numeric_as_double ops first ''='' s = (r, s')"
    by (cases "get_numeric_as_double ops first ''='' s")
  have pe: "prim_equal ops (list_value vs) s
              = Return (prim_equal_loop ops r (list_value (x # xs)) s')"
    using g by (simp add: vs prim_equal_def)
  show "\<exists>s'. prim_equal ops (list_value vs) s = Return (Some (L0_Boolean False), s')"
  proof (cases "is_number first")
    case True
    with ex vs have "\<exists>v\<in>set (x # xs). \<not> is_number v" by auto
    from equal_loop_some_non_number[OF this, of ops r s'] show ?thesis unfolding pe by simp
  next
    case False
    with get_numeric_None_iff[OF g] have r: "r = None" by simp
    have "x # xs \<noteq> []" by simp
    from equal_loop_first_not_number[OF this, of ops s'] show ?thesis unfolding pe r by simp
  qed
qed

theorem prim_equal_non_number_is_false_witness:
  "compared_args rat_ops [L0_Integer 1, L0_Integer 1, L0_Symbol ''a'', L0_Integer 3]
     = [L0_Integer 1, L0_Integer 1, L0_Symbol ''a'']
   \<and> \<not> is_number (L0_Symbol ''a'' :: rat L0_Value)
   \<and> prim_equal rat_ops
        (list_value [L0_Integer 1, L0_Integer 1, L0_Symbol ''a'', L0_Integer 3])
        (runtime_error ''earlier failure'' clean_slot)
       = Return (Some (L0_Boolean False), clean_slot)"
  using prim_equal_non_number_is_false
          [of rat_ops "[L0_Integer 1, L0_Integer 1, L0_Symbol ''a'', L0_Integer 3]"
              "runtime_error ''earlier failure'' clean_slot"]
  by (simp add: compared_args_def is_number_def rat_ops_def runtime_error_def clean_slot_def)

text \<open>
  C7 as stated fails: the comparisons do not require two arguments.  \<^verbatim>\<open>(= 1)\<close>, \<^verbatim>\<open>(< 1)\<close>
  and \<^verbatim>\<open>(> 1)\<close>, and the same three with no argument at all, return Boolean true and
  leave the slot untouched.
\<close>

theorem comparison_accepts_fewer_than_two_arguments:
  "prim_equal rat_ops (list_value [L0_Integer 1]) clean_slot
     = Return (Some (L0_Boolean True), clean_slot)
   \<and> prim_less_than rat_ops (list_value [L0_Integer 1]) clean_slot
     = Return (Some (L0_Boolean True), clean_slot)
   \<and> prim_greater_than rat_ops (list_value [L0_Integer 1]) clean_slot
     = Return (Some (L0_Boolean True), clean_slot)
   \<and> prim_equal rat_ops (list_value []) clean_slot
     = Return (Some (L0_Boolean True), clean_slot)
   \<and> prim_less_than rat_ops (list_value []) clean_slot
     = Return (Some (L0_Boolean True), clean_slot)
   \<and> prim_greater_than rat_ops (list_value []) clean_slot
     = Return (Some (L0_Boolean True), clean_slot)"
  by (simp add: prim_equal_def prim_less_than_def prim_greater_than_def)

text \<open>
  With two or more numbers the three comparisons return the Boolean of the comparison of
  the doubles read from the arguments: \<^verbatim>\<open>=\<close> of every argument with the first, \<^verbatim>\<open><\<close> and
  \<^verbatim>\<open>>\<close> of every argument with the one before it.
\<close>

lemma less_than_loop_numbers:
  "\<forall>v\<in>set xs. is_number v \<Longrightarrow>
   prim_less_than_loop ops p (list_value xs) s
     = (Some (L0_Boolean (chain (d_lt ops) (p # map (as_double ops) xs))), s)"
  by (induction xs arbitrary: p) (auto simp: get_numeric_number)

lemma greater_than_loop_numbers:
  "\<forall>v\<in>set xs. is_number v \<Longrightarrow>
   prim_greater_than_loop ops p (list_value xs) s
     = (Some (L0_Boolean (chain (d_gt ops) (p # map (as_double ops) xs))), s)"
  by (induction xs arbitrary: p) (auto simp: get_numeric_number)

lemma equal_loop_numbers:
  "\<forall>v\<in>set xs. is_number v \<Longrightarrow>
   prim_equal_loop ops (Some p) (list_value xs) s
     = (Some (L0_Boolean (list_all (\<lambda>v. d_eq ops p (as_double ops v)) xs)), s)"
  by (induction xs) (auto simp: get_numeric_number)

lemma comparison_of_numbers:
  assumes "\<forall>v\<in>set vs. is_number v" and "2 \<le> length vs"
  shows "prim_equal ops (list_value vs) s
           = Return (Some (L0_Boolean
               (list_all (\<lambda>v. d_eq ops (as_double ops (hd vs)) (as_double ops v)) (tl vs))), s)"
    and "prim_less_than ops (list_value vs) s
           = Return (Some (L0_Boolean (chain (d_lt ops) (map (as_double ops) vs))), s)"
    and "prim_greater_than ops (list_value vs) s
           = Return (Some (L0_Boolean (chain (d_gt ops) (map (as_double ops) vs))), s)"
proof -
  from assms(2) obtain first x xs where vs: "vs = first # x # xs"
    by (cases vs; cases "tl vs") auto
  with assms(1) have n1: "is_number first" and n2: "\<forall>v\<in>set (x # xs). is_number v" by simp_all
  from equal_loop_numbers[OF n2, of ops "as_double ops first" s] n1
  show "prim_equal ops (list_value vs) s
           = Return (Some (L0_Boolean
               (list_all (\<lambda>v. d_eq ops (as_double ops (hd vs)) (as_double ops v)) (tl vs))), s)"
    by (simp add: vs prim_equal_def get_numeric_number)
  from less_than_loop_numbers[OF n2, of ops "as_double ops first" s] n1
  show "prim_less_than ops (list_value vs) s
           = Return (Some (L0_Boolean (chain (d_lt ops) (map (as_double ops) vs))), s)"
    by (simp add: vs prim_less_than_def get_numeric_number)
  from greater_than_loop_numbers[OF n2, of ops "as_double ops first" s] n1
  show "prim_greater_than ops (list_value vs) s
           = Return (Some (L0_Boolean (chain (d_gt ops) (map (as_double ops) vs))), s)"
    by (simp add: vs prim_greater_than_def get_numeric_number)
qed

lemma comparison_of_few:
  assumes "length vs < 2"
  shows "prim_equal ops (list_value vs) s = Return (Some (L0_Boolean True), s)"
    and "prim_less_than ops (list_value vs) s = Return (Some (L0_Boolean True), s)"
    and "prim_greater_than ops (list_value vs) s = Return (Some (L0_Boolean True), s)"
proof -
  from assms have "vs = [] \<or> (\<exists>x. vs = [x])"
    by (cases vs; cases "tl vs") auto
  then show "prim_equal ops (list_value vs) s = Return (Some (L0_Boolean True), s)"
    and "prim_less_than ops (list_value vs) s = Return (Some (L0_Boolean True), s)"
    and "prim_greater_than ops (list_value vs) s = Return (Some (L0_Boolean True), s)"
    by (auto simp: prim_equal_def prim_less_than_def prim_greater_than_def)
qed

text \<open>
  C7 (amended).  The three comparisons enforce no minimum of two arguments: on fewer than
  two arguments, numbers or not, each returns Boolean true and leaves the slot alone.  On
  a list of numbers of any length each returns a Boolean and leaves the slot alone, and
  the Boolean is that of the comparison of the arguments as doubles, an integer being
  converted to a double first: \<^verbatim>\<open>=\<close> holds when every argument after the first equals the
  first, \<^verbatim>\<open><\<close> and \<^verbatim>\<open>>\<close> when every argument stands in the relation to the one after it.
\<close>

theorem comparison_primitives_compare_doubles:
  "(length vs < 2 \<longrightarrow>
      prim_equal ops (list_value vs) s = Return (Some (L0_Boolean True), s)
      \<and> prim_less_than ops (list_value vs) s = Return (Some (L0_Boolean True), s)
      \<and> prim_greater_than ops (list_value vs) s = Return (Some (L0_Boolean True), s))
   \<and> ((\<forall>v\<in>set vs. is_number v) \<longrightarrow>
        prim_equal ops (list_value vs) s
          = Return (Some (L0_Boolean (equal_to_first (d_eq ops) (map (as_double ops) vs))), s)
        \<and> prim_less_than ops (list_value vs) s
          = Return (Some (L0_Boolean (chain (d_lt ops) (map (as_double ops) vs))), s)
        \<and> prim_greater_than ops (list_value vs) s
          = Return (Some (L0_Boolean (chain (d_gt ops) (map (as_double ops) vs))), s))
   \<and> as_double ops (L0_Integer i) = d_of_long ops i
   \<and> as_double ops (L0_Float d) = d"
proof (intro conjI impI)
  assume few: "length vs < 2"
  show "prim_equal ops (list_value vs) s = Return (Some (L0_Boolean True), s)"
    using few by (rule comparison_of_few)
  show "prim_less_than ops (list_value vs) s = Return (Some (L0_Boolean True), s)"
    using few by (rule comparison_of_few)
  show "prim_greater_than ops (list_value vs) s = Return (Some (L0_Boolean True), s)"
    using few by (rule comparison_of_few)
next
  assume nums: "\<forall>v\<in>set vs. is_number v"
  have few: "equal_to_first (d_eq ops) (map (as_double ops) vs)"
       "chain (d_lt ops) (map (as_double ops) vs)"
       "chain (d_gt ops) (map (as_double ops) vs)" if "length vs < 2"
  proof -
    from that have "vs = [] \<or> (\<exists>x. vs = [x])" by (cases vs; cases "tl vs") auto
    then show "equal_to_first (d_eq ops) (map (as_double ops) vs)"
       "chain (d_lt ops) (map (as_double ops) vs)"
       "chain (d_gt ops) (map (as_double ops) vs)"
      by auto
  qed
  have eq: "equal_to_first (d_eq ops) (map (as_double ops) vs)
              = list_all (\<lambda>v. d_eq ops (as_double ops (hd vs)) (as_double ops v)) (tl vs)"
    if "2 \<le> length vs"
    using that by (cases vs) (simp_all add: list_all_iff)
  show "prim_equal ops (list_value vs) s
          = Return (Some (L0_Boolean (equal_to_first (d_eq ops) (map (as_double ops) vs))), s)"
  proof (cases "length vs < 2")
    case True
    with comparison_of_few(1)[OF True] few(1) show ?thesis by simp
  next
    case False
    then have "2 \<le> length vs" by simp
    with comparison_of_numbers(1)[OF nums this] eq show ?thesis by simp
  qed
  show "prim_less_than ops (list_value vs) s
          = Return (Some (L0_Boolean (chain (d_lt ops) (map (as_double ops) vs))), s)"
  proof (cases "length vs < 2")
    case True
    with comparison_of_few(2)[OF True] few(2) show ?thesis by simp
  next
    case False
    then have "2 \<le> length vs" by simp
    from comparison_of_numbers(2)[OF nums this] show ?thesis .
  qed
  show "prim_greater_than ops (list_value vs) s
          = Return (Some (L0_Boolean (chain (d_gt ops) (map (as_double ops) vs))), s)"
  proof (cases "length vs < 2")
    case True
    with comparison_of_few(3)[OF True] few(3) show ?thesis by simp
  next
    case False
    then have "2 \<le> length vs" by simp
    from comparison_of_numbers(3)[OF nums this] show ?thesis .
  qed
next
  show "as_double ops (L0_Integer i) = d_of_long ops i" by simp
  show "as_double ops (L0_Float d) = d" by simp
qed

theorem comparison_primitives_compare_doubles_witness:
  "length [L0_Symbol ''a'' :: rat L0_Value] < 2
   \<and> prim_less_than rat_ops (list_value [L0_Symbol ''a'']) clean_slot
       = Return (Some (L0_Boolean True), clean_slot)
   \<and> is_number (L0_Integer 1 :: rat L0_Value) \<and> is_number (L0_Float (3 / 2) :: rat L0_Value)
   \<and> is_number (L0_Integer 2 :: rat L0_Value)
   \<and> prim_equal rat_ops (list_value [L0_Integer 1, L0_Float (3 / 2), L0_Integer 2]) clean_slot
       = Return (Some (L0_Boolean False), clean_slot)
   \<and> prim_less_than rat_ops (list_value [L0_Integer 1, L0_Float (3 / 2), L0_Integer 2])
        clean_slot
       = Return (Some (L0_Boolean True), clean_slot)
   \<and> prim_greater_than rat_ops (list_value [L0_Integer 1, L0_Float (3 / 2), L0_Integer 2])
        clean_slot
       = Return (Some (L0_Boolean False), clean_slot)"
proof -
  let ?vs = "[L0_Integer 1, L0_Float (3 / 2), L0_Integer 2 :: rat L0_Value]"
  have h1: "length [L0_Symbol ''a'' :: rat L0_Value] < 2" by simp
  have h2: "\<forall>v\<in>set ?vs. is_number v" by (simp add: is_number_def)
  have v: "equal_to_first (d_eq rat_ops) (map (as_double rat_ops) ?vs) = False"
          "chain (d_lt rat_ops) (map (as_double rat_ops) ?vs) = True"
          "chain (d_gt rat_ops) (map (as_double rat_ops) ?vs) = False"
    by (simp_all add: rat_ops_def)
  note few = comparison_primitives_compare_doubles
               [of "[L0_Symbol ''a'']" rat_ops clean_slot 0 0, THEN conjunct1]
  note nums = comparison_primitives_compare_doubles
               [of ?vs rat_ops clean_slot 0 0, THEN conjunct2, THEN conjunct1]
  from few h1
  have c1: "prim_less_than rat_ops (list_value [L0_Symbol ''a'']) clean_slot
              = Return (Some (L0_Boolean True), clean_slot)"
    by blast
  from nums h2 v
  have c2: "prim_equal rat_ops (list_value ?vs) clean_slot
              = Return (Some (L0_Boolean False), clean_slot)
            \<and> prim_less_than rat_ops (list_value ?vs) clean_slot
              = Return (Some (L0_Boolean True), clean_slot)
            \<and> prim_greater_than rat_ops (list_value ?vs) clean_slot
              = Return (Some (L0_Boolean False), clean_slot)"
    by simp
  have h3: "is_number (L0_Integer 1 :: rat L0_Value)"
           "is_number (L0_Float (3 / 2) :: rat L0_Value)"
           "is_number (L0_Integer 2 :: rat L0_Value)"
    by (simp_all add: is_number_def)
  from h1 h3 c1 c2 show ?thesis by blast
qed



section \<open>Properties of the evaluator\<close>

lemma l0_is_nil_iff [simp]: "l0_is_nil (Some v) \<longleftrightarrow> v = L0_NIL"
  by (cases v) simp_all

lemma is_true_iff: "is_true r \<longleftrightarrow> r \<noteq> L0_Boolean False"
  by (cases r) (auto simp: is_true_def)

lemma l0_is_truthy_iff: "l0_is_truthy v \<longleftrightarrow> v \<noteq> Some (L0_Boolean False)"
proof (cases v)
  case None then show ?thesis by (simp add: l0_is_truthy_def)
next
  case (Some r) then show ?thesis by (cases r) (auto simp: l0_is_truthy_def)
qed

lemma is_true_truthy: "is_true r = l0_is_truthy (Some r)"
  by (simp add: is_true_iff l0_is_truthy_iff)

lemma leave_enter [simp]: "leave (s\<lparr>eval_depth := eval_depth s + 1\<rparr>) = s"
  by (simp add: leave_def)

lemma leave_runtime_error: "leave (runtime_error msg s) = runtime_error msg (leave s)"
  by (simp add: leave_def runtime_error_def)

lemma lookup_eval_depth [simp]:
  "l0_env_lookup (s\<lparr>eval_depth := d\<rparr>) env name = l0_env_lookup s env name"
  by (simp add: l0_env_lookup_def)

lemma eval_error_enter:
  "eval_error msg (s\<lparr>eval_depth := eval_depth s + 1\<rparr>) = Return (None, runtime_error msg s)"
  by (simp add: eval_error_def leave_def runtime_error_def)

lemma l0_eval_Suc:
  "l0_eval (Suc n) host expr env s = l0_eval_body host (l0_run n host) expr env s"
  by (simp add: l0_eval_def l0_step_def)

lemma l0_run_eval: "l0_run n host (Call_eval expr env) s = l0_eval n host expr env s"
  by (simp add: l0_eval_def)

lemma l0_expand_quasiquote_Suc:
  "l0_expand_quasiquote (Suc n) host template env depth s
     = l0_expand_quasiquote_body (l0_run n host) template env depth s"
  by (simp add: l0_expand_quasiquote_def l0_step_def)

lemma l0_run_expand:
  "l0_run n host (Call_expand_quasiquote template env depth) s
     = l0_expand_quasiquote n host template env depth s"
  by (simp add: l0_expand_quasiquote_def)




declare l0_run.simps [simp del]









lemma enter_depth_check:
  "eval_depth (s\<lparr>eval_depth := eval_depth s + 1\<rparr>) > MAX_EVAL_DEPTH \<longleftrightarrow> \<not> eval_depth s < MAX_EVAL_DEPTH"
  by auto

lemma eval_too_deep:
  "\<not> eval_depth s < MAX_EVAL_DEPTH \<Longrightarrow>
   l0_eval (Suc n) host expr env s
     = Return (None, runtime_error ''Stack overflow suspected in l0_eval.'' s)"
  by (simp add: l0_eval_Suc l0_eval_body_def eval_error_enter Let_def)

lemma eval_application:
  "eval_depth s < MAX_EVAL_DEPTH \<Longrightarrow> get_special_form_type f = SF_NONE \<Longrightarrow>
   l0_eval (Suc n) host (L0_Pair (L0_Symbol f) args) env s
     = sf_none host (l0_run n host) f args env (s\<lparr>eval_depth := eval_depth s + 1\<rparr>)"
  by (simp add: l0_eval_Suc l0_eval_body_def Let_def)

text \<open>
  C9.  Let \<open>f\<close> be a symbol that names no special form.  When \<^verbatim>\<open>*macro-table*\<close> is bound
  nowhere along the environment chain, or is bound to a value that is not a list, the
  evaluation of an application of \<open>f\<close> returns null with a runtime error in the slot and
  nothing else changed, whatever \<open>f\<close> is bound to and whatever the arguments are; below
  the depth limit the message is that of the macro check.
\<close>

theorem application_consults_macro_table_first:
  "get_special_form_type f = SF_NONE
   \<and> (l0_env_lookup s env ''*macro-table*'' = None
      \<or> (\<exists>t. l0_env_lookup s env ''*macro-table*'' = Some t \<and> \<not> l0_is_list (Some t)))
   \<longrightarrow>
     (\<exists>msg. l0_eval (Suc n) host (L0_Pair (L0_Symbol f) args) env s
              = Return (None, runtime_error msg s))
     \<and> (eval_depth s < MAX_EVAL_DEPTH \<and> l0_env_lookup s env ''*macro-table*'' = None \<longrightarrow>
          l0_eval (Suc n) host (L0_Pair (L0_Symbol f) args) env s
            = Return (None, runtime_error
                ''Macro check failed: Global variable '*macro-table*' not found.'' s))
     \<and> (eval_depth s < MAX_EVAL_DEPTH \<and> l0_env_lookup s env ''*macro-table*'' \<noteq> None \<longrightarrow>
          l0_eval (Suc n) host (L0_Pair (L0_Symbol f) args) env s
            = Return (None, runtime_error
                ''Macro check failed: Global variable '*macro-table*' is not a list.'' s))"
proof (intro impI, elim conjE)
  assume sf: "get_special_form_type f = SF_NONE"
    and tbl: "l0_env_lookup s env ''*macro-table*'' = None
      \<or> (\<exists>t. l0_env_lookup s env ''*macro-table*'' = Some t \<and> \<not> l0_is_list (Some t))"
  have none: "l0_eval (Suc n) host (L0_Pair (L0_Symbol f) args) env s
            = Return (None, runtime_error
                ''Macro check failed: Global variable '*macro-table*' not found.'' s)"
    if "eval_depth s < MAX_EVAL_DEPTH" "l0_env_lookup s env ''*macro-table*'' = None"
    using that by (simp add: eval_application[OF that(1) sf] sf_none_def eval_error_enter)
  have nolist: "l0_eval (Suc n) host (L0_Pair (L0_Symbol f) args) env s
            = Return (None, runtime_error
                ''Macro check failed: Global variable '*macro-table*' is not a list.'' s)"
    if "eval_depth s < MAX_EVAL_DEPTH" "l0_env_lookup s env ''*macro-table*'' \<noteq> None"
  proof -
    from that(2) tbl obtain t where "l0_env_lookup s env ''*macro-table*'' = Some t"
      and "\<not> l0_is_list (Some t)" by auto
    then show ?thesis
      by (simp add: eval_application[OF that(1) sf] sf_none_def eval_error_enter)
  qed
  have "\<exists>msg. l0_eval (Suc n) host (L0_Pair (L0_Symbol f) args) env s
              = Return (None, runtime_error msg s)"
  proof (cases "eval_depth s < MAX_EVAL_DEPTH")
    case False
    from eval_too_deep[OF this] show ?thesis by blast
  next
    case True
    show ?thesis
    proof (cases "l0_env_lookup s env ''*macro-table*'' = None")
      case True
      from none[OF \<open>eval_depth s < MAX_EVAL_DEPTH\<close> this] show ?thesis by blast
    next
      case False
      from nolist[OF \<open>eval_depth s < MAX_EVAL_DEPTH\<close> this] show ?thesis by blast
    qed
  qed
  with none nolist
  show "(\<exists>msg. l0_eval (Suc n) host (L0_Pair (L0_Symbol f) args) env s
              = Return (None, runtime_error msg s))
     \<and> (eval_depth s < MAX_EVAL_DEPTH \<and> l0_env_lookup s env ''*macro-table*'' = None \<longrightarrow>
          l0_eval (Suc n) host (L0_Pair (L0_Symbol f) args) env s
            = Return (None, runtime_error
                ''Macro check failed: Global variable '*macro-table*' not found.'' s))
     \<and> (eval_depth s < MAX_EVAL_DEPTH \<and> l0_env_lookup s env ''*macro-table*'' \<noteq> None \<longrightarrow>
          l0_eval (Suc n) host (L0_Pair (L0_Symbol f) args) env s
            = Return (None, runtime_error
                ''Macro check failed: Global variable '*macro-table*' is not a list.'' s))"
    by blast
qed

theorem application_consults_macro_table_first_witness:
  "get_special_form_type ''+'' = SF_NONE
   \<and> l0_env_lookup (world_of [(''+'', L0_Primitive ''+'')] :: rat L0_World) 0 ''*macro-table*''
       = None
   \<and> l0_env_lookup (world_of [(''+'', L0_Primitive ''+'')] :: rat L0_World) 0 ''+''
       = Some (L0_Primitive ''+'')
   \<and> eval_depth (world_of [(''+'', L0_Primitive ''+'')] :: rat L0_World) < MAX_EVAL_DEPTH
   \<and> l0_eval 1 (arithmetic_host rat_ops)
        (list_value [L0_Symbol ''+'', L0_Integer 1, L0_Integer 2]) 0
        (world_of [(''+'', L0_Primitive ''+'')])
       = Return (None, runtime_error
           ''Macro check failed: Global variable '*macro-table*' not found.''
           (world_of [(''+'', L0_Primitive ''+'')]))
   \<and> l0_env_lookup (world_of [(''+'', L0_Primitive ''+''), (''*macro-table*'', L0_Integer 5)]
                      :: rat L0_World) 0 ''*macro-table*''
       = Some (L0_Integer 5)
   \<and> \<not> l0_is_list (Some (L0_Integer 5 :: rat L0_Value))
   \<and> l0_eval 1 (arithmetic_host rat_ops)
        (list_value [L0_Symbol ''+'', L0_Integer 1, L0_Integer 2]) 0
        (world_of [(''+'', L0_Primitive ''+''), (''*macro-table*'', L0_Integer 5)])
       = Return (None, runtime_error
           ''Macro check failed: Global variable '*macro-table*' is not a list.''
           (world_of [(''+'', L0_Primitive ''+''), (''*macro-table*'', L0_Integer 5)]))"
  using application_consults_macro_table_first
          [of "''+''" "world_of [(''+'', L0_Primitive ''+'')] :: rat L0_World" 0 0
              "arithmetic_host rat_ops" "list_value [L0_Integer 1, L0_Integer 2]"]
        application_consults_macro_table_first
          [of "''+''" "world_of [(''+'', L0_Primitive ''+''), (''*macro-table*'', L0_Integer 5)]
                         :: rat L0_World" 0 0
              "arithmetic_host rat_ops" "list_value [L0_Integer 1, L0_Integer 2]"]
  by (simp add: get_special_form_type_def l0_env_lookup_def world_of_def MAX_EVAL_DEPTH_def)



text \<open>
  C1 (amended).  At nesting depth 1 the expansion of a template \<^verbatim>\<open>(unquote-splicing x)\<close>
  does not evaluate \<^verbatim>\<open>x\<close>: it returns null with the runtime error
  \<^verbatim>\<open>TODO: 'unquote-splicing' is not yet implemented.\<close> and changes nothing else.  So does
  the expansion of a list whose first element is such a form, and so does the evaluation
  of \<^verbatim>\<open>(quasiquote (unquote-splicing x))\<close> below the depth limit.
\<close>

theorem unquote_splicing_is_a_runtime_error:
  "l0_expand_quasiquote (Suc n) host (L0_Pair (L0_Symbol ''unquote-splicing'') rest) env 1 s
     = Return (None, runtime_error ''TODO: 'unquote-splicing' is not yet implemented.'' s)
   \<and> l0_expand_quasiquote (Suc (Suc n)) host
        (L0_Pair (L0_Pair (L0_Symbol ''unquote-splicing'') rest) tail_t) env 1 s
     = Return (None, runtime_error ''TODO: 'unquote-splicing' is not yet implemented.'' s)
   \<and> (eval_depth s < MAX_EVAL_DEPTH \<longrightarrow>
        l0_eval (Suc (Suc n)) host
          (list_value [L0_Symbol ''quasiquote'', L0_Pair (L0_Symbol ''unquote-splicing'') rest])
          env s
        = Return (None, runtime_error ''TODO: 'unquote-splicing' is not yet implemented.'' s))"
proof (intro conjI impI)
  show direct: "l0_expand_quasiquote (Suc n) host
          (L0_Pair (L0_Symbol ''unquote-splicing'') rest) env 1 s
     = Return (None, runtime_error ''TODO: 'unquote-splicing' is not yet implemented.'' s)"
    for n s
    by (simp add: l0_expand_quasiquote_Suc l0_expand_quasiquote_body_def)
  show "l0_expand_quasiquote (Suc (Suc n)) host
        (L0_Pair (L0_Pair (L0_Symbol ''unquote-splicing'') rest) tail_t) env 1 s
     = Return (None, runtime_error ''TODO: 'unquote-splicing' is not yet implemented.'' s)"
    by (simp add: l0_expand_quasiquote_Suc[of "Suc n"] l0_expand_quasiquote_body_def
          expand_pair_def l0_run_expand direct on_value_def)
  assume d: "eval_depth s < MAX_EVAL_DEPTH"
  show "l0_eval (Suc (Suc n)) host
          (list_value [L0_Symbol ''quasiquote'', L0_Pair (L0_Symbol ''unquote-splicing'') rest])
          env s
        = Return (None, runtime_error ''TODO: 'unquote-splicing' is not yet implemented.'' s)"
    using d
    by (simp add: l0_eval_Suc[of "Suc n"] l0_eval_body_def get_special_form_type_def
          sf_quasiquote_def l0_run_expand direct and_then_def leave_def runtime_error_def)
qed

theorem unquote_splicing_is_a_runtime_error_witness:
  "eval_depth (global_world :: rat L0_World) < MAX_EVAL_DEPTH
   \<and> l0_eval 2 (arithmetic_host rat_ops)
        (list_value [L0_Symbol ''quasiquote'',
           L0_Pair (L0_Symbol ''unquote-splicing'')
             (list_value [list_value [L0_Symbol ''quote'', list_value [L0_Integer 2, L0_Integer 3]]])])
        0 global_world
      = Return (None, runtime_error ''TODO: 'unquote-splicing' is not yet implemented.''
                        global_world)"
  using unquote_splicing_is_a_runtime_error
          [of 0 "arithmetic_host rat_ops"
              "list_value [list_value [L0_Symbol ''quote'', list_value [L0_Integer 2, L0_Integer 3]]]"
              0 global_world L0_NIL]
  by (simp add: global_world_def world_of_def MAX_EVAL_DEPTH_def eval_nat_numeral)

text \<open>
  C1 as stated fails: \<^verbatim>\<open>`(1 ,@'(2 3))\<close>, that is
  \<^verbatim>\<open>(quasiquote (1 (unquote-splicing (quote (2 3)))))\<close>, does not evaluate to the list
  \<^verbatim>\<open>(1 2 3)\<close>; the evaluation returns null with the runtime error.
\<close>

theorem unquote_splicing_counterexample:
  "l0_eval 5 (arithmetic_host rat_ops)
     (list_value [L0_Symbol ''quasiquote'',
        list_value [L0_Integer 1,
          list_value [L0_Symbol ''unquote-splicing'',
            list_value [L0_Symbol ''quote'', list_value [L0_Integer 2, L0_Integer 3]]]]])
     0 global_world
   = Return (None, runtime_error ''TODO: 'unquote-splicing' is not yet implemented.''
                     global_world)"
  by code_simp



lemma eval_cond:
  "eval_depth s < MAX_EVAL_DEPTH \<Longrightarrow>
   l0_eval (Suc n) host (L0_Pair (L0_Symbol ''cond'') clauses) env s
     = cond_loop (l0_run n host) clauses env (s\<lparr>eval_depth := eval_depth s + 1\<rparr>)"
  by (simp add: l0_eval_Suc l0_eval_body_def get_special_form_type_def Let_def)

lemma cond_falls_through_Cons:
  assumes "cond_falls_through rec env (clause # clauses) s = Some s1"
  obtains test_expr body_exprs s' where "clause = L0_Pair test_expr body_exprs"
    and "test_expr \<noteq> L0_Symbol ''else''"
    and "rec (Call_eval test_expr env) s = Return (Some (L0_Boolean False), s')"
    and "l0_parser_error_status s' = L0_PARSE_OK"
    and "cond_falls_through rec env clauses s' = Some s1"
proof (cases clause)
  case (L0_Pair test_expr body_exprs)
  with assms have ne: "test_expr \<noteq> L0_Symbol ''else''" by (auto split: if_splits)
  show ?thesis
  proof (cases "rec (Call_eval test_expr env) s")
    case (Return r)
    obtain v s' where r: "r = (v, s')" by (cases r)
    with assms L0_Pair ne Return obtain w where v: "v = Some w" by (cases v) auto
    with assms L0_Pair ne Return r obtain b where w: "w = L0_Boolean b" by (cases w) auto
    with assms L0_Pair ne Return r v have "\<not> b" by (cases b) auto
    with assms L0_Pair ne Return r v w that show ?thesis by (auto split: if_splits)
  qed (use assms L0_Pair ne in auto)
qed (use assms in auto)

lemma cond_loop_skips:
  "cond_falls_through rec env pre s = Some s1 \<Longrightarrow>
   cond_loop rec (list_value (pre @ rest)) env s = cond_loop rec (list_value rest) env s1"
proof (induction pre arbitrary: s)
  case Nil then show ?case by simp
next
  case (Cons clause pre)
  from Cons.prems obtain test_expr body_exprs s' where c: "clause = L0_Pair test_expr body_exprs"
    and ne: "test_expr \<noteq> L0_Symbol ''else''"
    and ev: "rec (Call_eval test_expr env) s = Return (Some (L0_Boolean False), s')"
    and ok: "l0_parser_error_status s' = L0_PARSE_OK"
    and ft: "cond_falls_through rec env pre s' = Some s1"
    by (rule cond_falls_through_Cons)
  from Cons.IH[OF ft] c ne ev ok show ?case by (simp add: is_true_iff)
qed

text \<open>
  C8 (amended).  Take a \<^verbatim>\<open>cond\<close> form entered below the depth limit whose first clauses
  \<open>pre\<close> are passed over, and let \<open>s1\<close> be the state after their tests.  If the next
  clause has a test other than \<^verbatim>\<open>else\<close> that evaluates, with the slot clean, to a truthy
  value, the form returns that value when the clause has no body and otherwise evaluates the
  body as a sequence, as a tail call (the depth counter is decremented first).  If the next
  clause is an \<^verbatim>\<open>else\<close> clause, it is an error for further clauses to follow, and otherwise
  the form returns \<^verbatim>\<open>#t\<close> for an empty body or evaluates the body in the same way.  If
  no clause is left, the form returns Nil.  An \<^verbatim>\<open>else\<close> clause standing after a clause that
  is taken is never looked at.
\<close>

theorem cond_takes_first_truthy_clause:
  "eval_depth s < MAX_EVAL_DEPTH
   \<and> cond_falls_through (l0_run n host) env pre (s\<lparr>eval_depth := eval_depth s + 1\<rparr>) = Some s1
   \<longrightarrow>
     (test \<noteq> L0_Symbol ''else'' \<and> l0_eval n host test env s1 = Return (Some v, s2)
        \<and> l0_parser_error_status s2 = L0_PARSE_OK \<and> l0_is_truthy (Some v) \<longrightarrow>
        l0_eval (Suc n) host
          (L0_Pair (L0_Symbol ''cond'') (list_value (pre @ L0_Pair test body # post))) env s
          = (if body = L0_NIL then Return (Some v, leave s2)
             else l0_eval_sequence (l0_run n host) body env (leave s2)))
     \<and> (post \<noteq> [] \<longrightarrow>
          l0_eval (Suc n) host
            (L0_Pair (L0_Symbol ''cond'')
               (list_value (pre @ L0_Pair (L0_Symbol ''else'') body # post))) env s
          = Return (None, leave (runtime_error
              (CHR 0x27 # ''else' clause must be the last clause in 'cond'.'') s1)))
     \<and> l0_eval (Suc n) host
          (L0_Pair (L0_Symbol ''cond'')
             (list_value (pre @ [L0_Pair (L0_Symbol ''else'') body]))) env s
          = (if body = L0_NIL then Return (Some (L0_Boolean True), leave s1)
             else l0_eval_sequence (l0_run n host) body env (leave s1))
     \<and> l0_eval (Suc n) host (L0_Pair (L0_Symbol ''cond'') (list_value pre)) env s
          = Return (Some L0_NIL, leave s1)"
proof (intro impI, elim conjE)
  assume d: "eval_depth s < MAX_EVAL_DEPTH"
    and ft: "cond_falls_through (l0_run n host) env pre (s\<lparr>eval_depth := eval_depth s + 1\<rparr>)
               = Some s1"
  note skip = cond_loop_skips[OF ft]
  have a: "l0_eval (Suc n) host
          (L0_Pair (L0_Symbol ''cond'') (list_value (pre @ L0_Pair test body # post))) env s
          = (if body = L0_NIL then Return (Some v, leave s2)
             else l0_eval_sequence (l0_run n host) body env (leave s2))"
    if "test \<noteq> L0_Symbol ''else''" "l0_eval n host test env s1 = Return (Some v, s2)"
       "l0_parser_error_status s2 = L0_PARSE_OK" "l0_is_truthy (Some v)"
    using that by (simp add: eval_cond[OF d] skip l0_run_eval is_true_truthy)
  have b: "l0_eval (Suc n) host
            (L0_Pair (L0_Symbol ''cond'')
               (list_value (pre @ L0_Pair (L0_Symbol ''else'') body # post))) env s
          = Return (None, leave (runtime_error
              (CHR 0x27 # ''else' clause must be the last clause in 'cond'.'') s1))"
    if "post \<noteq> []"
    using that by (cases post) (simp_all add: eval_cond[OF d] skip eval_error_def)
  have c: "l0_eval (Suc n) host
          (L0_Pair (L0_Symbol ''cond'')
             (list_value (pre @ [L0_Pair (L0_Symbol ''else'') body]))) env s
          = (if body = L0_NIL then Return (Some (L0_Boolean True), leave s1)
             else l0_eval_sequence (l0_run n host) body env (leave s1))"
    by (simp add: eval_cond[OF d] skip)
  have e: "l0_eval (Suc n) host (L0_Pair (L0_Symbol ''cond'') (list_value pre)) env s
          = Return (Some L0_NIL, leave s1)"
    using cond_loop_skips[OF ft, of "[]"] by (simp add: eval_cond[OF d])
  from a b c e
  show "(test \<noteq> L0_Symbol ''else'' \<and> l0_eval n host test env s1 = Return (Some v, s2)
        \<and> l0_parser_error_status s2 = L0_PARSE_OK \<and> l0_is_truthy (Some v) \<longrightarrow>
        l0_eval (Suc n) host
          (L0_Pair (L0_Symbol ''cond'') (list_value (pre @ L0_Pair test body # post))) env s
          = (if body = L0_NIL then Return (Some v, leave s2)
             else l0_eval_sequence (l0_run n host) body env (leave s2)))
     \<and> (post \<noteq> [] \<longrightarrow>
          l0_eval (Suc n) host
            (L0_Pair (L0_Symbol ''cond'')
               (list_value (pre @ L0_Pair (L0_Symbol ''else'') body # post))) env s
          = Return (None, leave (runtime_error
              (CHR 0x27 # ''else' clause must be the last clause in 'cond'.'') s1)))
     \<and> l0_eval (Suc n) host
          (L0_Pair (L0_Symbol ''cond'')
             (list_value (pre @ [L0_Pair (L0_Symbol ''else'') body]))) env s
          = (if body = L0_NIL then Return (Some (L0_Boolean True), leave s1)
             else l0_eval_sequence (l0_run n host) body env (leave s1))
     \<and> l0_eval (Suc n) host (L0_Pair (L0_Symbol ''cond'') (list_value pre)) env s
          = Return (Some L0_NIL, leave s1)"
    by blast
qed

theorem cond_takes_first_truthy_clause_witness:
  "eval_depth (global_world :: rat L0_World) < MAX_EVAL_DEPTH
   \<and> cond_falls_through (l0_run 2 (arithmetic_host rat_ops)) 0
        [list_value [L0_Boolean False, L0_Integer 0]]
        (global_world\<lparr>eval_depth := eval_depth (global_world :: rat L0_World) + 1\<rparr>)
       = Some (global_world\<lparr>eval_depth := 1\<rparr>)
   \<and> (L0_Integer 5 :: rat L0_Value) \<noteq> L0_Symbol ''else''
   \<and> l0_eval 2 (arithmetic_host rat_ops) (L0_Integer 5) 0 (global_world\<lparr>eval_depth := 1\<rparr>)
       = Return (Some (L0_Integer 5), global_world\<lparr>eval_depth := 1\<rparr>)
   \<and> l0_parser_error_status (global_world\<lparr>eval_depth := 1\<rparr> :: rat L0_World) = L0_PARSE_OK
   \<and> l0_is_truthy (Some (L0_Integer 5 :: rat L0_Value))
   \<and> l0_eval 3 (arithmetic_host rat_ops)
        (list_value [L0_Symbol ''cond'', list_value [L0_Boolean False, L0_Integer 0],
                     list_value [L0_Integer 5]]) 0 global_world
       = Return (Some (L0_Integer 5), global_world)
   \<and> l0_eval 3 (arithmetic_host rat_ops)
        (list_value [L0_Symbol ''cond'', list_value [L0_Boolean False, L0_Integer 0],
                     list_value [L0_Symbol ''else'', L0_Integer 1],
                     list_value [L0_Integer 2]]) 0 global_world
       = Return (None, runtime_error
                   (CHR 0x27 # ''else' clause must be the last clause in 'cond'.'') global_world)"
proof -
  let ?H = "arithmetic_host rat_ops"
  let ?g = "global_world :: rat L0_World"
  let ?s1 = "?g\<lparr>eval_depth := 1\<rparr>"
  let ?c0 = "list_value [L0_Boolean False, L0_Integer 0] :: rat L0_Value"
  have h1: "eval_depth ?g < MAX_EVAL_DEPTH" by code_simp
  have h2: "cond_falls_through (l0_run 2 ?H) 0 [?c0] (?g\<lparr>eval_depth := eval_depth ?g + 1\<rparr>)
              = Some ?s1" by code_simp
  have h3: "(L0_Integer 5 :: rat L0_Value) \<noteq> L0_Symbol ''else''" by simp
  have h4: "l0_eval 2 ?H (L0_Integer 5) 0 ?s1 = Return (Some (L0_Integer 5), ?s1)" by code_simp
  have h5: "l0_parser_error_status ?s1 = L0_PARSE_OK" by code_simp
  have h6: "l0_is_truthy (Some (L0_Integer 5 :: rat L0_Value))" by code_simp
  have l: "leave ?s1 = ?g" by code_simp
  have le: "leave (runtime_error msg ?s1) = runtime_error msg ?g" for msg
    unfolding leave_runtime_error l ..
  note t = cond_takes_first_truthy_clause
             [of ?g 2 ?H 0 "[?c0]" ?s1 "L0_Integer 5" "L0_Integer 5" ?s1 L0_NIL "[]"]
  note t' = cond_takes_first_truthy_clause
             [of ?g 2 ?H 0 "[?c0]" ?s1 "L0_Integer 5" "L0_Integer 5" ?s1
                 "list_value [L0_Integer 1]" "[list_value [L0_Integer 2]]"]
  from t h1 h2 h3 h4 h5 h6
  have c1: "l0_eval 3 ?H
        (list_value [L0_Symbol ''cond'', ?c0, list_value [L0_Integer 5]]) 0 ?g
       = Return (Some (L0_Integer 5), ?g)"
    by (simp add: l eval_nat_numeral)
  from t' h1 h2
  have c2: "l0_eval 3 ?H
        (list_value [L0_Symbol ''cond'', ?c0,
                     list_value [L0_Symbol ''else'', L0_Integer 1],
                     list_value [L0_Integer 2]]) 0 ?g
       = Return (None, runtime_error
                   (CHR 0x27 # ''else' clause must be the last clause in 'cond'.'') ?g)"
    by (simp add: le eval_nat_numeral)
  from h1 h2 h3 h4 h5 h6 c1 c2 show ?thesis by blast
qed

text \<open>
  C8 as stated fails: in \<^verbatim>\<open>(cond (#t 1) (else 2) (#t 3))\<close> an \<^verbatim>\<open>else\<close> clause is present
  and is not the last clause, yet no runtime error is raised; the form evaluates to 1.
\<close>

theorem cond_else_not_last_counterexample:
  "l0_eval 5 (arithmetic_host rat_ops)
     (list_value [L0_Symbol ''cond'',
        list_value [L0_Boolean True, L0_Integer 1],
        list_value [L0_Symbol ''else'', L0_Integer 2],
        list_value [L0_Boolean True, L0_Integer 3]])
     0 global_world
   = Return (Some (L0_Integer 1), global_world)"
  by code_simp



subsection \<open>Closure application\<close>

lemma bind_loop_symbols:
  "bind_loop (list_value (map L0_Symbol names)) (list_value vs) ce s
     = Return (list_value (map L0_Symbol (drop (length vs) names)),
               list_value (drop (length names) vs),
               bind_all ce (zip names vs) s)"
proof (induction names arbitrary: vs s)
  case Nil
  show ?case by (cases vs) simp_all
next
  case (Cons n names)
  show ?case
  proof (cases vs)
    case Nil then show ?thesis by simp
  next
    case (Cons v vs') with Cons.IH show ?thesis by simp
  qed
qed

lemma frame_assign_absent:
  "name \<notin> fst ` set fr \<Longrightarrow> frame_assign name v fr = None"
  by (induction fr) auto

lemma frame_lookup_map_of: "frame_lookup fr name = map_of fr name"
  by (induction fr) auto

lemma frame_lookup_rev_zip:
  assumes "distinct names" and "length vs = length names" and "i < length names"
  shows "frame_lookup (rev (zip names vs)) (names ! i) = Some (vs ! i)"
proof -
  have d: "distinct (map fst (rev (zip names vs)))"
    using assms(1,2) by (simp add: rev_map[symmetric] map_fst_zip)
  have "(names ! i, vs ! i) \<in> set (rev (zip names vs))"
    using assms(2,3) by (auto simp: set_zip)
  with d show ?thesis unfolding frame_lookup_map_of by (rule map_of_is_SomeI)
qed

lemma apply_closure:
  "l0_apply host rec (L0_Closure (list_value (map L0_Symbol names)) body cenv)
      (list_value vs) env s
     = (let s2 = bind_all (length (envs s)) (zip names vs)
                   (s\<lparr>envs := envs s @ [\<lparr>frame = [], outer = Some cenv\<rparr>]\<rparr>)
        in if length vs = length names then l0_eval_sequence rec body (length (envs s)) s2
           else Return (None, runtime_error
                  ''Function called with incorrect number of arguments.'' s2))"
proof -
  have nil_p: "list_value (map L0_Symbol (drop (length vs) names)) = L0_NIL
                 \<longleftrightarrow> length names \<le> length vs"
    by (cases "drop (length vs) names") auto
  have nil_a: "list_value (drop (length names) vs) = L0_NIL \<longleftrightarrow> length vs \<le> length names"
    by (cases "drop (length names) vs") auto
  show ?thesis
    by (auto simp: l0_apply_def l0_env_extend_def bind_loop_symbols nil_p nil_a Let_def)
qed

lemma bind_all_frame:
  "ce < length (envs s) \<Longrightarrow>
   bind_all ce nvs s
     = s\<lparr>envs := (envs s)[ce := (envs s ! ce)\<lparr>frame := bind_frame nvs (frame (envs s ! ce))\<rparr>]\<rparr>"
proof (induction nvs arbitrary: s)
  case Nil
  then show ?case by simp
next
  case (Cons nv nvs)
  obtain n v where nv: "nv = (n, v)" by (cases nv)
  let ?f = "case frame_assign n v (frame (envs s ! ce)) of
              Some f \<Rightarrow> f | None \<Rightarrow> (n, v) # frame (envs s ! ce)"
  let ?s' = "l0_env_define ce n v s"
  have s': "?s' = s\<lparr>envs := (envs s)[ce := (envs s ! ce)\<lparr>frame := ?f\<rparr>]\<rparr>"
    by (simp add: l0_env_define_def Let_def)
  have len: "ce < length (envs ?s')" using Cons.prems by (simp add: s')
  have cell: "envs ?s' ! ce = (envs s ! ce)\<lparr>frame := ?f\<rparr>"
    using Cons.prems by (simp add: s')
  have "bind_all ce nvs ?s'
     = ?s'\<lparr>envs := (envs ?s')[ce := (envs ?s' ! ce)\<lparr>frame :=
          bind_frame nvs (frame (envs ?s' ! ce))\<rparr>]\<rparr>"
    using len by (rule Cons.IH)
  also have "\<dots> = s\<lparr>envs := (envs s)[ce := (envs s ! ce)\<lparr>frame := bind_frame nvs ?f\<rparr>]\<rparr>"
    unfolding cell by (simp add: s')
  finally show ?case by (simp add: nv)
qed

lemma bind_all_new_frame:
  "bind_all (length (envs s)) nvs (s\<lparr>envs := envs s @ [\<lparr>frame = [], outer = Some cenv\<rparr>]\<rparr>)
     = s\<lparr>envs := envs s @ [\<lparr>frame = bind_frame nvs [], outer = Some cenv\<rparr>]\<rparr>"
proof -
  let ?s1 = "s\<lparr>envs := envs s @ [\<lparr>frame = [], outer = Some cenv\<rparr>]\<rparr>"
  have "length (envs s) < length (envs ?s1)" by simp
  from bind_all_frame[OF this, of nvs] show ?thesis by simp
qed

lemma frame_assign_lookup:
  "frame_assign name v fr = Some f \<Longrightarrow>
   frame_lookup f x = (if x = name then Some v else frame_lookup fr x)"
proof (induction fr arbitrary: f)
  case Nil
  then show ?case by simp
next
  case (Cons b bs)
  obtain k y where b: "b = (k, y)" by (cases b)
  show ?case
  proof (cases "k = name")
    case True
    with Cons.prems b show ?thesis by auto
  next
    case False
    with Cons.prems b obtain bs' where bs': "frame_assign name v bs = Some bs'"
      and f: "f = (k, y) # bs'"
      by (auto split: option.splits)
    from Cons.IH[OF bs'] False show ?thesis by (auto simp: f b)
  qed
qed

lemma frame_lookup_bind_frame:
  "frame_lookup (bind_frame nvs fr) x
     = (case map_of (rev nvs) x of Some v \<Rightarrow> Some v | None \<Rightarrow> frame_lookup fr x)"
proof (induction nvs arbitrary: fr)
  case Nil
  show ?case by simp
next
  case (Cons nv nvs)
  obtain n v where nv: "nv = (n, v)" by (cases nv)
  let ?f = "case frame_assign n v fr of Some f \<Rightarrow> f | None \<Rightarrow> (n, v) # fr"
  have step: "frame_lookup ?f x = (if x = n then Some v else frame_lookup fr x)"
  proof (cases "frame_assign n v fr")
    case None
    then show ?thesis by auto
  next
    case (Some f)
    from frame_assign_lookup[OF Some] Some show ?thesis by simp
  qed
  have "frame_lookup (bind_frame (nv # nvs) fr) x = frame_lookup (bind_frame nvs ?f) x"
    by (simp add: nv)
  also have "\<dots> = (case map_of (rev nvs) x of Some v \<Rightarrow> Some v | None \<Rightarrow> frame_lookup ?f x)"
    by (rule Cons.IH)
  also have "\<dots> = (case map_of (rev (nv # nvs)) x of
                      Some v \<Rightarrow> Some v | None \<Rightarrow> frame_lookup fr x)"
    by (simp add: step nv map_add_def split: option.splits)
  finally show ?case .
qed

lemma bind_frame_distinct:
  "distinct (map fst nvs) \<Longrightarrow> fst ` set nvs \<inter> fst ` set fr = {} \<Longrightarrow>
   bind_frame nvs fr = rev nvs @ fr"
proof (induction nvs arbitrary: fr)
  case Nil
  show ?case by simp
next
  case (Cons nv nvs)
  obtain n v where nv: "nv = (n, v)" by (cases nv)
  from Cons.prems nv have absent: "n \<notin> fst ` set fr" by auto
  have "bind_frame nvs ((n, v) # fr) = rev nvs @ (n, v) # fr"
    using Cons.prems nv by (intro Cons.IH) auto
  then show ?case by (simp add: nv frame_assign_absent[OF absent])
qed

lemma apply_closure_frame:
  "l0_apply host rec (L0_Closure (list_value (map L0_Symbol names)) body cenv)
      (list_value vs) env s
     = (let s2 = s\<lparr>envs := envs s
                     @ [\<lparr>frame = bind_frame (zip names vs) [], outer = Some cenv\<rparr>]\<rparr>
        in if length vs = length names then l0_eval_sequence rec body (length (envs s)) s2
           else Return (None, runtime_error
                  ''Function called with incorrect number of arguments.'' s2))"
  by (simp add: apply_closure bind_all_new_frame)

lemma eval_sequence_loop_snoc:
  "eval_sequence_loop rec (list_value (es @ [e])) env r0 s
     = (case eval_sequence_loop rec (list_value es) env r0 s of
          Return (Some v, s1) \<Rightarrow>
            on_value (rec (Call_eval e env) s1) (\<lambda>s2. Return (None, s2))
              (\<lambda>r s2. Return (Some r, s2))
        | Return (None, s1) \<Rightarrow> Return (None, s1)
        | Crash \<Rightarrow> Crash
        | Timeout \<Rightarrow> Timeout)"
proof (induction es arbitrary: r0 s)
  case Nil
  show ?case
    by (simp add: on_value_def split: outcome.splits option.splits prod.splits)
next
  case (Cons x es)
  show ?case
    by (simp add: Cons.IH split: outcome.splits option.splits prod.splits)
qed



lemma eval_begin:
  "eval_depth s < MAX_EVAL_DEPTH \<Longrightarrow>
   l0_eval (Suc n) host (L0_Pair (L0_Symbol ''begin'') body) env s
     = l0_eval_sequence (l0_run n host) body env s"
  by (simp add: l0_eval_Suc l0_eval_body_def get_special_form_type_def Let_def)

text \<open>
  The parameter lists that pass the check of \<^verbatim>\<open>lambda\<close>, \<^verbatim>\<open>define\<close> and \<^verbatim>\<open>defmacro\<close>
  are the proper lists of symbols, so every closure the evaluator builds has one.
\<close>

lemma check_params_ok_iff:
  "check_params params = Params_ok \<longleftrightarrow> (\<exists>names. params = list_value (map L0_Symbol names))"
proof
  show "check_params params = Params_ok \<Longrightarrow> \<exists>names. params = list_value (map L0_Symbol names)"
  proof (induction params rule: check_params.induct)
    case (1 p rest)
    then obtain name where p: "p = L0_Symbol name" by (cases p) (auto split: if_splits)
    with 1 obtain names where "rest = list_value (map L0_Symbol names)"
      by (auto split: if_splits)
    with p have "L0_Pair p rest = list_value (map L0_Symbol (name # names))" by simp
    then show ?case by blast
  next
    case 2
    have "L0_NIL = list_value (map L0_Symbol [])" by simp
    then show ?case by blast
  qed simp_all
next
  assume "\<exists>names. params = list_value (map L0_Symbol names)"
  then obtain names where "params = list_value (map L0_Symbol names)" ..
  then show "check_params params = Params_ok"
    by (induction names arbitrary: params) simp_all
qed

text \<open>
  C5.  Applying a closure whose parameters are the symbols \<open>names\<close> to the arguments
  \<open>vs\<close>, whatever the names and the arguments are.  The application creates a new
  environment, whose outer environment is the one the closure captured, and defines the
  parameters in it one after the other, each with the argument at its position; all
  environments that existed before are as they were.  When the two lists differ in length
  it returns null with the runtime error of the wrong argument count.  When they agree,
  the body is evaluated by \<^verbatim>\<open>l0_eval_sequence\<close> in the new environment.  In the new frame a
  name is bound to the argument of its last occurrence among the parameters; when no
  parameter is named twice the frame is the list of the parameters with their arguments,
  the last in front, and each parameter is bound to the argument at its position.
  \<^verbatim>\<open>l0_eval_sequence\<close> is what \<^verbatim>\<open>begin\<close> evaluates its arguments with; on an empty body it
  returns Nil, and otherwise, once the expressions before the last have been evaluated, it
  returns what the last expression evaluates to.
\<close>

theorem closure_application:
  "(length vs \<noteq> length names \<longrightarrow>
      l0_apply host rec (L0_Closure (list_value (map L0_Symbol names)) body cenv)
        (list_value vs) env s
      = Return (None, runtime_error ''Function called with incorrect number of arguments.''
          (s\<lparr>envs := envs s
                @ [\<lparr>frame = bind_frame (zip names vs) [], outer = Some cenv\<rparr>]\<rparr>)))
   \<and> (length vs = length names \<longrightarrow>
        l0_apply host rec (L0_Closure (list_value (map L0_Symbol names)) body cenv)
          (list_value vs) env s
        = l0_eval_sequence rec body (length (envs s))
            (s\<lparr>envs := envs s
                  @ [\<lparr>frame = bind_frame (zip names vs) [], outer = Some cenv\<rparr>]\<rparr>))
   \<and> frame_lookup (bind_frame (zip names vs) []) name = map_of (rev (zip names vs)) name
   \<and> (distinct names \<longrightarrow>
        bind_frame (zip names vs) [] = rev (zip names vs)
        \<and> (length vs = length names \<longrightarrow>
             (\<forall>i<length names. frame_lookup (bind_frame (zip names vs) []) (names ! i)
                                 = Some (vs ! i))))
   \<and> l0_eval_sequence rec L0_NIL env s = Return (Some L0_NIL, s)
   \<and> l0_eval_sequence rec (list_value (es @ [e])) env s
       = (case l0_eval_sequence rec (list_value es) env s of
            Return (Some v, s1) \<Rightarrow>
              on_value (rec (Call_eval e env) s1) (\<lambda>s2. Return (None, s2))
                (\<lambda>r s2. Return (Some r, s2))
          | Return (None, s1) \<Rightarrow> Return (None, s1)
          | Crash \<Rightarrow> Crash
          | Timeout \<Rightarrow> Timeout)
   \<and> (eval_depth s < MAX_EVAL_DEPTH \<longrightarrow>
        l0_eval (Suc n) host (L0_Pair (L0_Symbol ''begin'') body) env s
          = l0_eval_sequence (l0_run n host) body env s)"
proof (intro conjI impI)
  assume "length vs \<noteq> length names"
  then show "l0_apply host rec (L0_Closure (list_value (map L0_Symbol names)) body cenv)
        (list_value vs) env s
      = Return (None, runtime_error ''Function called with incorrect number of arguments.''
          (s\<lparr>envs := envs s
                @ [\<lparr>frame = bind_frame (zip names vs) [], outer = Some cenv\<rparr>]\<rparr>))"
    by (simp add: apply_closure_frame)
next
  assume "length vs = length names"
  then show "l0_apply host rec (L0_Closure (list_value (map L0_Symbol names)) body cenv)
          (list_value vs) env s
        = l0_eval_sequence rec body (length (envs s))
            (s\<lparr>envs := envs s
                  @ [\<lparr>frame = bind_frame (zip names vs) [], outer = Some cenv\<rparr>]\<rparr>)"
    by (simp add: apply_closure_frame)
next
  show "frame_lookup (bind_frame (zip names vs) []) name = map_of (rev (zip names vs)) name"
    by (simp add: frame_lookup_bind_frame split: option.splits)
next
  assume d: "distinct names"
  then have "distinct (map fst (zip names vs))" by (simp add: map_fst_zip_take)
  then show fr: "bind_frame (zip names vs) [] = rev (zip names vs)"
    using bind_frame_distinct[of "zip names vs" "[]"] by simp
  assume "length vs = length names"
  with d show "\<forall>i<length names. frame_lookup (bind_frame (zip names vs) []) (names ! i)
                                 = Some (vs ! i)"
    unfolding fr by (simp add: frame_lookup_rev_zip)
next
  show "l0_eval_sequence rec L0_NIL env s = Return (Some L0_NIL, s)"
    by (simp add: l0_eval_sequence_def)
  show "l0_eval_sequence rec (list_value (es @ [e])) env s
       = (case l0_eval_sequence rec (list_value es) env s of
            Return (Some v, s1) \<Rightarrow>
              on_value (rec (Call_eval e env) s1) (\<lambda>s2. Return (None, s2))
                (\<lambda>r s2. Return (Some r, s2))
          | Return (None, s1) \<Rightarrow> Return (None, s1)
          | Crash \<Rightarrow> Crash
          | Timeout \<Rightarrow> Timeout)"
    unfolding l0_eval_sequence_def by (rule eval_sequence_loop_snoc)
next
  assume "eval_depth s < MAX_EVAL_DEPTH"
  then show "l0_eval (Suc n) host (L0_Pair (L0_Symbol ''begin'') body) env s
          = l0_eval_sequence (l0_run n host) body env s"
    by (rule eval_begin)
qed

theorem closure_application_witness:
  "length [L0_Integer 7 :: rat L0_Value] \<noteq> length [''x'', ''y'']
   \<and> l0_apply (arithmetic_host rat_ops) (l0_run 3 (arithmetic_host rat_ops))
        (L0_Closure (list_value [L0_Symbol ''x'', L0_Symbol ''y''])
           (list_value [list_value [L0_Symbol ''-'', L0_Symbol ''x'', L0_Symbol ''y'']]) 0)
        (list_value [L0_Integer 7]) 0 global_world
       = Return (None, runtime_error ''Function called with incorrect number of arguments.''
           (global_world\<lparr>envs := envs global_world
              @ [\<lparr>frame = [(''x'', L0_Integer 7)], outer = Some 0\<rparr>]\<rparr>))
   \<and> length [L0_Integer 7 :: rat L0_Value, L0_Integer 2] = length [''x'', ''y'']
   \<and> distinct [''x'', ''y'']
   \<and> l0_apply (arithmetic_host rat_ops) (l0_run 3 (arithmetic_host rat_ops))
        (L0_Closure (list_value [L0_Symbol ''x'', L0_Symbol ''y''])
           (list_value [list_value [L0_Symbol ''-'', L0_Symbol ''x'', L0_Symbol ''y'']]) 0)
        (list_value [L0_Integer 7, L0_Integer 2]) 0 global_world
       = Return (Some (L0_Integer 5),
           global_world\<lparr>envs := envs global_world
              @ [\<lparr>frame = [(''y'', L0_Integer 2), (''x'', L0_Integer 7)], outer = Some 0\<rparr>]\<rparr>)
   \<and> length [L0_Integer 1 :: rat L0_Value, L0_Integer 2] = length [''x'', ''x'']
   \<and> l0_apply (arithmetic_host rat_ops) (l0_run 3 (arithmetic_host rat_ops))
        (L0_Closure (list_value [L0_Symbol ''x'', L0_Symbol ''x''])
           (list_value [L0_Symbol ''x'']) 0)
        (list_value [L0_Integer 1, L0_Integer 2]) 0 global_world
       = Return (Some (L0_Integer 2),
           global_world\<lparr>envs := envs global_world
              @ [\<lparr>frame = [(''x'', L0_Integer 2)], outer = Some 0\<rparr>]\<rparr>)
   \<and> eval_depth (global_world :: rat L0_World) < MAX_EVAL_DEPTH
   \<and> l0_eval 3 (arithmetic_host rat_ops)
        (list_value [L0_Symbol ''begin'', L0_Integer 1, L0_Integer 2]) 0 global_world
       = Return (Some (L0_Integer 2), global_world)"
proof -
  let ?H = "arithmetic_host rat_ops"
  let ?g = "global_world :: rat L0_World"
  let ?body = "list_value [list_value [L0_Symbol ''-'', L0_Symbol ''x'', L0_Symbol ''y'']]
                 :: rat L0_Value"
  let ?f = "L0_Closure (list_value (map L0_Symbol [''x'', ''y''])) ?body 0"
  let ?s1 = "?g\<lparr>envs := envs ?g
              @ [\<lparr>frame = bind_frame (zip [''x'', ''y''] [L0_Integer 7]) [],
                  outer = Some 0\<rparr>]\<rparr>"
  let ?s2 = "?g\<lparr>envs := envs ?g
              @ [\<lparr>frame = bind_frame (zip [''x'', ''y''] [L0_Integer 7, L0_Integer 2]) [],
                  outer = Some 0\<rparr>]\<rparr>"
  let ?s3 = "?g\<lparr>envs := envs ?g
              @ [\<lparr>frame = bind_frame (zip [''x'', ''x''] [L0_Integer 1, L0_Integer 2]) [],
                  outer = Some 0\<rparr>]\<rparr>"
  have h1: "length [L0_Integer 7 :: rat L0_Value] \<noteq> length [''x'', ''y'']" by simp
  have h2: "length [L0_Integer 7 :: rat L0_Value, L0_Integer 2] = length [''x'', ''y'']"
    by simp
  have h2d: "distinct [''x'', ''y'']" by simp
  have h3: "length [L0_Integer 1 :: rat L0_Value, L0_Integer 2] = length [''x'', ''x'']"
    by simp
  have h4: "eval_depth ?g < MAX_EVAL_DEPTH" by code_simp
  have f1: "?s1 = ?g\<lparr>envs := envs ?g @ [\<lparr>frame = [(''x'', L0_Integer 7)], outer = Some 0\<rparr>]\<rparr>"
    by simp
  have e2: "l0_eval_sequence (l0_run 3 ?H) ?body (length (envs ?g)) ?s2
              = Return (Some (L0_Integer 5),
                  ?g\<lparr>envs := envs ?g
                    @ [\<lparr>frame = [(''y'', L0_Integer 2), (''x'', L0_Integer 7)],
                        outer = Some 0\<rparr>]\<rparr>)"
    by code_simp
  have e3: "l0_eval_sequence (l0_run 3 ?H) (list_value [L0_Symbol ''x'']) (length (envs ?g)) ?s3
              = Return (Some (L0_Integer 2),
                  ?g\<lparr>envs := envs ?g @ [\<lparr>frame = [(''x'', L0_Integer 2)], outer = Some 0\<rparr>]\<rparr>)"
    by code_simp
  have e4: "l0_eval_sequence (l0_run 2 ?H) (list_value [L0_Integer 1, L0_Integer 2]) 0 ?g
              = Return (Some (L0_Integer 2), ?g)"
    by code_simp
  note t1 = closure_application
             [of "[L0_Integer 7]" "[''x'', ''y'']" ?H "l0_run 3 ?H" ?body 0 0 ?g
                 "''x''" "[]" "L0_Integer 1" 2]
  from t1 h1 f1
  have c1: "l0_apply ?H (l0_run 3 ?H) ?f (list_value [L0_Integer 7]) 0 ?g
       = Return (None, runtime_error ''Function called with incorrect number of arguments.''
           (?g\<lparr>envs := envs ?g @ [\<lparr>frame = [(''x'', L0_Integer 7)], outer = Some 0\<rparr>]\<rparr>))"
    by simp
  note t2 = closure_application
             [of "[L0_Integer 7, L0_Integer 2]" "[''x'', ''y'']" ?H "l0_run 3 ?H" ?body 0 0 ?g
                 "''x''" "[]" "L0_Integer 1" 2]
  from t2 h2 e2
  have c2: "l0_apply ?H (l0_run 3 ?H) ?f (list_value [L0_Integer 7, L0_Integer 2]) 0 ?g
              = Return (Some (L0_Integer 5),
                  ?g\<lparr>envs := envs ?g
                    @ [\<lparr>frame = [(''y'', L0_Integer 2), (''x'', L0_Integer 7)],
                        outer = Some 0\<rparr>]\<rparr>)"
    by simp
  note t3 = closure_application
             [of "[L0_Integer 1, L0_Integer 2]" "[''x'', ''x'']" ?H "l0_run 3 ?H"
                 "list_value [L0_Symbol ''x'']" 0 0 ?g "''x''" "[]" "L0_Integer 1" 2]
  from t3 h3 e3
  have c3: "l0_apply ?H (l0_run 3 ?H)
              (L0_Closure (list_value [L0_Symbol ''x'', L0_Symbol ''x''])
                 (list_value [L0_Symbol ''x'']) 0)
              (list_value [L0_Integer 1, L0_Integer 2]) 0 ?g
              = Return (Some (L0_Integer 2),
                  ?g\<lparr>envs := envs ?g @ [\<lparr>frame = [(''x'', L0_Integer 2)], outer = Some 0\<rparr>]\<rparr>)"
    by simp
  note t4 = closure_application
             [of "[L0_Integer 7, L0_Integer 2]" "[''x'', ''y'']" ?H "l0_run 3 ?H"
                 "list_value [L0_Integer 1, L0_Integer 2]" 0 0 ?g "''x''" "[]" "L0_Integer 1" 2]
  from t4 h4 e4
  have c4: "l0_eval 3 ?H (list_value [L0_Symbol ''begin'', L0_Integer 1, L0_Integer 2]) 0 ?g
              = Return (Some (L0_Integer 2), ?g)"
    by (simp add: eval_nat_numeral)
  from h1 h2 h2d h3 h4 c1 c2 c3 c4 show ?thesis by simp
qed

subsection \<open>Macro expansion\<close>

lemma set_error_simps [simp]:
  "set_error None s = s" "set_error (Some msg) s = runtime_error msg s"
  by (simp_all add: set_error_def)










lemma leave_macroexpand_status [simp]:
  "l0_parser_error_status (leave_macroexpand s) = l0_parser_error_status s"
  by (simp add: leave_macroexpand_def)










section \<open>Properties of the parser\<close>

subsection \<open>Skipping white space and comments\<close>



lemma skip_whitespace_stops:
  "current_pos (skip_whitespace xs l c) = x # rest \<Longrightarrow> \<not> isspace x"
  by (induction xs l c rule: skip_whitespace.induct) (auto split: if_splits)

lemma skip_comment_stops:
  "current_pos (skip_comment xs l c) = x # rest \<Longrightarrow> x = CHR 0x0A"
  by (induction xs l c rule: skip_comment.induct) (auto split: if_splits)

declare skip_whitespace_and_comments.simps [simp del]




lemma skip_stops:
  "current_pos (skip_whitespace_and_comments state) = x # rest \<Longrightarrow>
   \<not> isspace x \<and> x \<noteq> CHR '';''"
proof (induction state rule: skip_whitespace_and_comments.induct)
  case (1 state)
  let ?s1 = "skip_whitespace (current_pos state) (line state) (col state)"
  let ?s2 = "skip_comment (current_pos ?s1) (line ?s1) (col ?s1)"
  show ?case
  proof (cases "current_pos ?s1")
    case Nil
    with "1.prems" show ?thesis by (simp add: skip_whitespace_and_comments.simps[of state])
  next
    case (Cons c rest1)
    show ?thesis
    proof (cases "c = CHR '';''")
      case False
      with Cons "1.prems" have "current_pos ?s1 = x # rest" "x = c"
        by (simp_all add: skip_whitespace_and_comments.simps[of state])
      with False skip_whitespace_stops[OF this(1)] show ?thesis by simp
    next
      case True
      show ?thesis
      proof (cases "current_pos ?s2")
        case Nil
        with Cons True "1.prems" show ?thesis
          by (simp add: skip_whitespace_and_comments.simps[of state] Let_def)
      next
        case c2: (Cons n rest2)
        from skip_comment_stops[OF c2] have n: "n = CHR 0x0A" .
        from Cons True c2 n "1.prems"
        have "current_pos (skip_whitespace_and_comments ?s2) = x # rest"
          by (simp add: skip_whitespace_and_comments.simps[of state] Let_def)
        with Cons True c2 n show ?thesis
          by (intro "1.IH"[OF refl _ _ refl]) simp_all
      qed
    qed
  qed
qed

lemma skip_nothing:
  assumes "current_pos state = x # rest" and "\<not> isspace x" and "x \<noteq> CHR '';''"
  shows "skip_whitespace_and_comments state = state"
  using assms by (simp add: skip_whitespace_and_comments.simps[of state])

lemma skip_again [simp]:
  "skip_whitespace_and_comments (skip_whitespace_and_comments state)
     = skip_whitespace_and_comments state"
proof (cases "current_pos (skip_whitespace_and_comments state)")
  case Nil
  then show ?thesis
    by (simp add: skip_whitespace_and_comments.simps[of "skip_whitespace_and_comments state"])
next
  case (Cons x rest)
  from skip_stops[OF Cons] have "\<not> isspace x" "x \<noteq> CHR '';''" by simp_all
  with Cons show ?thesis by (rule skip_nothing)
qed

subsection \<open>Atoms and string literals\<close>







subsection \<open>Expressions and lists\<close>




lemma advance_length [simp]:
  "length (current_pos (advance k state)) = length (current_pos state) - k"
  by (simp add: advance_def)







subsection \<open>The entry points\<close>












end
